theory Spec2Isabelle
  imports Complex_Main
begin

text \<open>
  The analysis job orchestration of Quantis: the route handlers that launch,
  resume, report and read an analysis job, the background tasks they start, the
  hypothesis guard of the CFO assistant and the tab lifecycle of the tabs
  context. Handlers are functions from the request and the tables to the reply
  and the tables; a task started without being awaited is returned as data,
  and its run is the list of the writes and calls it issues. The store answers
  every query: a statement fails only by a constraint of the schema, or when
  \<^verbatim>\<open>single()\<close> does not find exactly one row. Time is a number: each statement
  sent to the store carries the value of \<^verbatim>\<open>NOW()\<close> at which it runs.
\<close>

section \<open>JSON payloads\<close>

text \<open>
  Request bodies, analysis results and caller-supplied data are JSON values
  (\<^verbatim>\<open>Record<string, any>\<close>, \<^verbatim>\<open>any\<close> in the TypeScript sources).
\<close>

datatype json =
    JNull
  | JBool bool
  | JNum real
  | JStr string
  | JArr "json list"
  | JObj "(string \<times> json) list"

section \<open>The analyses table\<close>

text \<open>
  \<^verbatim>\<open>AnalysisStep\<close> and \<^verbatim>\<open>MissingData\<close> of the progress hook; the step timestamps
  are never written by the route handlers and are left out.
\<close>

record analysis_step =
  s_name :: string
  s_label :: string
  s_status :: string
  s_message :: "string option"

record missing_data_item =
  md_id :: string
  md_type :: string
  md_description :: string
  md_required :: bool

text \<open>
  One row of table \<^verbatim>\<open>analyses\<close> (migrations.sql and
  add-analysis-status-migration.sql), with all its columns. \<^verbatim>\<open>created_at\<close> and
  \<^verbatim>\<open>updated_at\<close> are numbers; both default to \<^verbatim>\<open>NOW()\<close> at the insert, and
  \<^verbatim>\<open>updated_at\<close> is rewritten by the trigger below.
\<close>

record analysis =
  a_id :: string
  a_user_id :: string
  a_project_id :: string
  a_question :: string
  a_file_ids :: "string list"
  a_status :: string
  a_current_step :: string
  a_progress :: int
  a_steps :: "analysis_step list"
  a_missing_data :: "missing_data_item list"
  a_partial_result :: json
  a_result :: json
  a_created_at :: nat
  a_updated_at :: nat

text \<open>
  The argument of \<^verbatim>\<open>.update({...})\<close>: a column is overwritten exactly when the
  object names it.
\<close>

record patch =
  p_status :: "string option"
  p_current_step :: "string option"
  p_progress :: "int option"
  p_steps :: "analysis_step list option"
  p_missing_data :: "missing_data_item list option"
  p_result :: "json option"

definition no_patch :: patch where
  "no_patch = \<lparr>p_status = None, p_current_step = None, p_progress = None,
                p_steps = None, p_missing_data = None, p_result = None\<rparr>"

definition apply_patch :: "patch \<Rightarrow> analysis \<Rightarrow> analysis" where
  "apply_patch p r =
     r\<lparr>a_status := (case p_status p of None \<Rightarrow> a_status r | Some v \<Rightarrow> v),
       a_current_step := (case p_current_step p of None \<Rightarrow> a_current_step r | Some v \<Rightarrow> v),
       a_progress := (case p_progress p of None \<Rightarrow> a_progress r | Some v \<Rightarrow> v),
       a_steps := (case p_steps p of None \<Rightarrow> a_steps r | Some v \<Rightarrow> v),
       a_missing_data := (case p_missing_data p of None \<Rightarrow> a_missing_data r | Some v \<Rightarrow> v),
       a_result := (case p_result p of None \<Rightarrow> a_result r | Some v \<Rightarrow> v)\<rparr>"

text \<open>
  The CHECK constraints of add-analysis-status-migration.sql on the values an
  update writes: \<^verbatim>\<open>status IN (...)\<close> and \<^verbatim>\<open>progress >= 0 AND progress <= 100\<close>.
\<close>

definition status_values :: "string list" where
  "status_values = [''pending'', ''in_progress'', ''waiting_for_data'', ''completed'', ''error'']"

definition check_ok :: "patch \<Rightarrow> bool" where
  "check_ok p \<longleftrightarrow>
     (case p_status p of None \<Rightarrow> True | Some s \<Rightarrow> s \<in> set status_values) \<and>
     (case p_progress p of None \<Rightarrow> True | Some n \<Rightarrow> 0 \<le> n \<and> n \<le> 100)"

text \<open>
  What an UPDATE does to a row it matches: the named columns are overwritten,
  and the trigger \<^verbatim>\<open>update_analyses_updated_at\<close> (BEFORE UPDATE, FOR EACH ROW)
  sets \<^verbatim>\<open>updated_at\<close> to \<^verbatim>\<open>NOW()\<close>.
\<close>

definition touch :: "nat \<Rightarrow> patch \<Rightarrow> analysis \<Rightarrow> analysis" where
  "touch now p r = (apply_patch p r)\<lparr>a_updated_at := now\<rparr>"

text \<open>
  \<^verbatim>\<open>from('analyses').update(p).eq(...)\<close> run at time \<open>now\<close>: every row matching
  the filter is updated; the statement fails as a whole, changing nothing, when
  an updated row would violate a CHECK constraint. \<open>None\<close> is the \<^verbatim>\<open>error\<close> of
  the reply.
\<close>

definition update_where ::
  "nat \<Rightarrow> (analysis \<Rightarrow> bool) \<Rightarrow> patch \<Rightarrow> analysis list \<Rightarrow> analysis list option" where
  "update_where now P p db =
     (if list_ex P db \<and> \<not> check_ok p then None
      else Some (map (\<lambda>r. if P r then touch now p r else r) db))"

text \<open>
  \<^verbatim>\<open>.select(...).eq(...).single()\<close>: the reply carries a row only when exactly
  one row matches; otherwise it carries an error.
\<close>

definition select_single :: "(analysis \<Rightarrow> bool) \<Rightarrow> analysis list \<Rightarrow> analysis option" where
  "select_single P db = (case filter P db of [r] \<Rightarrow> Some r | _ \<Rightarrow> None)"

text \<open>
  A write whose error the caller only logs or ignores: on failure the table is
  as before.
\<close>

definition write_by_id :: "nat \<Rightarrow> string \<Rightarrow> patch \<Rightarrow> analysis list \<Rightarrow> analysis list" where
  "write_by_id now aid p db =
     (case update_where now (\<lambda>r. a_id r = aid) p db of None \<Rightarrow> db | Some db' \<Rightarrow> db')"

section \<open>HTTP replies and the AI service\<close>

text \<open>
  \<open>AuthResponse\<close> is the reply \<^verbatim>\<open>requireAuth\<close> hands back when nobody is
  signed in; \<open>Error\<close> carries the HTTP status and the \<^verbatim>\<open>error\<close> text.
\<close>

datatype 'a response = AuthResponse | Error nat string | Success 'a

text \<open>
  What \<^verbatim>\<open>fetch\<close> to the Python backend and the decoding of its reply can do:
  a decoded report, a non-OK reply with its text, a rejected \<^verbatim>\<open>fetch\<close>, or an
  OK reply whose body does not parse.
\<close>

datatype ai_outcome = AiOk json | AiNotOk string | AiThrows | AiMalformed

text \<open>
  The service is a function from the request it receives to what comes back;
  nothing is assumed about it.
\<close>

record ai_request =
  rq_question :: string
  rq_file_ids :: "string list option"
  rq_files_data :: "json list option"
  rq_analysis_id :: string
  rq_provided_data :: "json option"
  rq_update_status_url :: "string option"

type_synonym ai_service = "ai_request \<Rightarrow> ai_outcome"

text \<open>
  What a background task does, in order: a write to its job's row
  (\<^verbatim>\<open>.update(p).eq('id', analysisId)\<close>) or the call to the service.
\<close>

datatype event = Write patch | CallAI ai_request

fun writes_of :: "event list \<Rightarrow> patch list" where
  "writes_of [] = []"
| "writes_of (Write p # es) = p # writes_of es"
| "writes_of (CallAI rq # es) = writes_of es"

section \<open>POST /api/decisions/analyze/[id]/continue\<close>

record continue_ok =
  co_analysis_id :: string
  co_status :: string

record relaunch_task =
  t_analysisId :: string
  t_question :: string
  t_fileIds :: "string list"
  t_providedData :: "json option"

definition resume_patch :: patch where
  "resume_patch = no_patch\<lparr>p_status := Some ''in_progress'',
                           p_missing_data := Some [],
                           p_progress := Some 20,
                           p_current_step := Some ''analyzing_structure''\<rparr>"

text \<open>
  The handler. \<open>now\<close> is the time of its update, \<open>auth\<close> the signed-in
  user's id, \<open>body\<close> the parsed request body's \<^verbatim>\<open>missing_data\<close> (\<open>None\<close> for
  the whole body when \<^verbatim>\<open>request.json()\<close> throws). The result is the reply, the
  table, and the background task started without being awaited, if any.
\<close>

definition continue_POST ::
  "nat \<Rightarrow> string option \<Rightarrow> string \<Rightarrow> json option option \<Rightarrow> analysis list
     \<Rightarrow> continue_ok response \<times> analysis list \<times> relaunch_task option" where
  "continue_POST now auth analysisId body db =
     (case auth of
        None \<Rightarrow> (AuthResponse, db, None)
      | Some uid \<Rightarrow>
          if analysisId = [] then (Error 400 ''Analysis ID is required'', db, None)
          else (case body of
             None \<Rightarrow> (Error 500 ''Failed to continue analysis'', db, None)
           | Some missing_data \<Rightarrow>
              (case select_single (\<lambda>r. a_id r = analysisId \<and> a_user_id r = uid) db of
                 None \<Rightarrow> (Error 404 ''Analysis not found or access denied'', db, None)
               | Some analysis \<Rightarrow>
                  (case update_where now (\<lambda>r. a_id r = analysisId) resume_patch db of
                     None \<Rightarrow> (Error 500 ''Failed to update analysis'', db, None)
                   | Some db' \<Rightarrow>
                      (Success \<lparr>co_analysis_id = analysisId, co_status = ''in_progress''\<rparr>,
                       db',
                       Some \<lparr>t_analysisId = analysisId,
                             t_question = a_question analysis,
                             t_fileIds = a_file_ids analysis,
                             t_providedData = missing_data\<rparr>)))))"

text \<open>The request the relaunched task sends to the backend.\<close>

definition continue_request :: "relaunch_task \<Rightarrow> ai_request" where
  "continue_request t =
     \<lparr>rq_question = t_question t,
      rq_file_ids = (if length (t_fileIds t) > 0 then Some (t_fileIds t) else None),
      rq_files_data = None,
      rq_analysis_id = t_analysisId t,
      rq_provided_data = t_providedData t,
      rq_update_status_url = None\<rparr>"

definition error_patch :: patch where
  "error_patch = no_patch\<lparr>p_status := Some ''error'', p_progress := Some 0\<rparr>"

definition relaunch_start_patch :: patch where
  "relaunch_start_patch = no_patch\<lparr>p_status := Some ''in_progress'',
                                   p_current_step := Some ''analyzing_structure'',
                                   p_progress := Some 20\<rparr>"

definition relaunch_done_patch :: "json \<Rightarrow> patch" where
  "relaunch_done_patch result = no_patch\<lparr>p_status := Some ''completed'',
                                         p_current_step := Some ''creating_recommendations'',
                                         p_progress := Some 100,
                                         p_result := Some result\<rparr>"

text \<open>
  \<^verbatim>\<open>launchAnalysisAsync\<close> of the continue route: what it does in order, and
  whether the promise rejects. It writes the restart, then calls the service
  with \<open>continue_request\<close>. Its \<^verbatim>\<open>catch\<close> block names \<^verbatim>\<open>supabase\<close>, which is not in
  scope in this function: the block throws before it writes, so on every failure
  the promise rejects, and the write of the failure is left to the handler's
  \<^verbatim>\<open>.catch\<close> callback (\<open>continue_catch\<close>).
\<close>

definition continue_launchAnalysisAsync :: "relaunch_task \<Rightarrow> ai_service \<Rightarrow> event list \<times> bool" where
  "continue_launchAnalysisAsync t ai =
     (case ai (continue_request t) of
        AiOk result \<Rightarrow>
          ([Write relaunch_start_patch, CallAI (continue_request t),
            Write (relaunch_done_patch result)], False)
      | AiNotOk errorText \<Rightarrow>
          ([Write relaunch_start_patch, CallAI (continue_request t), Write error_patch], True)
      | AiThrows \<Rightarrow> ([Write relaunch_start_patch, CallAI (continue_request t)], True)
      | AiMalformed \<Rightarrow> ([Write relaunch_start_patch, CallAI (continue_request t)], True))"

definition continue_catch :: "event list \<times> bool \<Rightarrow> event list" where
  "continue_catch res =
     (case res of (es, rejected) \<Rightarrow> if rejected then es @ [Write error_patch] else es)"

definition relaunch_run :: "relaunch_task \<Rightarrow> ai_service \<Rightarrow> event list" where
  "relaunch_run t ai = continue_catch (continue_launchAnalysisAsync t ai)"

definition relaunch_writes :: "relaunch_task \<Rightarrow> ai_service \<Rightarrow> patch list" where
  "relaunch_writes t ai = writes_of (relaunch_run t ai)"

section \<open>POST /api/decisions/analyze/[id]/update-status\<close>

text \<open>
  The fields the handler destructures from the body; \<open>None\<close> is
  \<^verbatim>\<open>undefined\<close>. \<^verbatim>\<open>message\<close> is read and never used.
\<close>

record update_status_body =
  b_status :: "string option"
  b_current_step :: "string option"
  b_progress :: "int option"
  b_steps :: "analysis_step list option"
  b_message :: "string option"
  b_missing_data :: "missing_data_item list option"

definition updateData :: "update_status_body \<Rightarrow> patch" where
  "updateData body =
     no_patch\<lparr>p_status := b_status body,
              p_current_step := b_current_step body,
              p_progress := b_progress body,
              p_steps := b_steps body,
              p_missing_data := b_missing_data body\<rparr>"

definition update_status_POST ::
  "nat \<Rightarrow> string option \<Rightarrow> string \<Rightarrow> update_status_body option \<Rightarrow> analysis list
     \<Rightarrow> unit response \<times> analysis list" where
  "update_status_POST now auth analysisId body db =
     (case auth of
        None \<Rightarrow> (AuthResponse, db)
      | Some uid \<Rightarrow>
          if analysisId = [] then (Error 400 ''Analysis ID is required'', db)
          else (case body of
             None \<Rightarrow> (Error 500 ''Failed to update analysis status'', db)
           | Some b \<Rightarrow>
              (case update_where now (\<lambda>r. a_id r = analysisId \<and> a_user_id r = uid) (updateData b) db of
                 None \<Rightarrow> (Error 500 ''Failed to update analysis status'', db)
               | Some db' \<Rightarrow> (Success (), db'))))"

section \<open>GET /api/decisions/analyze/[id]/status\<close>

fun js_truthy :: "json \<Rightarrow> bool" where
  "js_truthy JNull = False"
| "js_truthy (JBool b) = b"
| "js_truthy (JNum n) = (n \<noteq> 0)"
| "js_truthy (JStr s) = (s \<noteq> [])"
| "js_truthy (JArr xs) = True"
| "js_truthy (JObj kvs) = True"

record status_reply =
  sr_analysis_id :: string
  sr_status :: string
  sr_current_step :: "string option"
  sr_progress :: int
  sr_steps :: "analysis_step list"
  sr_missing_data :: "missing_data_item list"
  sr_partial_result :: json
  sr_result :: json
  sr_question :: string

definition format_status :: "analysis \<Rightarrow> status_reply" where
  "format_status analysis =
     \<lparr>sr_analysis_id = a_id analysis,
      sr_status = (if a_status analysis = [] then ''pending'' else a_status analysis),
      sr_current_step = (if a_current_step analysis = [] then None else Some (a_current_step analysis)),
      sr_progress = a_progress analysis,
      sr_steps = a_steps analysis,
      sr_missing_data = a_missing_data analysis,
      sr_partial_result = (if js_truthy (a_partial_result analysis) then a_partial_result analysis else JNull),
      sr_result = (if a_status analysis = ''completed'' then a_result analysis else JNull),
      sr_question = a_question analysis\<rparr>"

definition status_GET :: "string option \<Rightarrow> string \<Rightarrow> analysis list \<Rightarrow> status_reply response" where
  "status_GET auth analysisId db =
     (case auth of
        None \<Rightarrow> AuthResponse
      | Some uid \<Rightarrow>
          if analysisId = [] then Error 400 ''Analysis ID is required''
          else (case select_single (\<lambda>r. a_id r = analysisId \<and> a_user_id r = uid) db of
                  None \<Rightarrow> Error 404 ''Analysis not found or access denied''
                | Some analysis \<Rightarrow> Success (format_status analysis)))"

section \<open>POST /api/decisions/analyze/stream\<close>

text \<open>
  The rows of \<^verbatim>\<open>projects\<close> and \<^verbatim>\<open>files\<close> as far as the handler filters on them.
\<close>

record project =
  pr_id :: string
  pr_user_id :: string

record file_row =
  f_id :: string
  f_user_id :: string
  f_project_id :: string

record database =
  projects :: "project list"
  files :: "file_row list"
  analyses :: "analysis list"

text \<open>
  The request body: \<^verbatim>\<open>question\<close> is any JSON value, since the handler tests its
  type; \<open>None\<close> is an absent field. Before that test the handler logs
  \<^verbatim>\<open>question?.substring(0, 50)\<close>: for a question that is neither absent, null
  nor a string this call throws, and the handler's \<^verbatim>\<open>catch\<close> answers 500.
\<close>

record stream_body =
  sb_question :: "json option"
  sb_file_ids :: "string list option"
  sb_project_id :: "string option"

text \<open>
  The display texts of the steps are French in the source; accented letters are
  written here without their accents.
\<close>

definition pending_step :: "string \<Rightarrow> string \<Rightarrow> analysis_step" where
  "pending_step n l = \<lparr>s_name = n, s_label = l, s_status = ''pending'', s_message = None\<rparr>"

definition initialSteps :: "analysis_step list" where
  "initialSteps =
     [pending_step ''analyzing_question'' ''Analyse de la question'',
      pending_step ''checking_files'' ''Verification des fichiers disponibles'',
      pending_step ''analyzing_structure'' ''Analyse de la structure des donnees'',
      pending_step ''calculating_metrics'' ''Calcul des metriques cles'',
      pending_step ''generating_scenarios'' ''Generation des scenarios'',
      pending_step ''creating_recommendations'' ''Creation des recommandations'']"

record stream_ok =
  so_analysis_id :: string
  so_status :: string
  so_current_step :: string
  so_progress :: int
  so_steps :: "analysis_step list"

record launch_task =
  l_analysisId :: string
  l_question :: string
  l_fileIds :: "string list"

definition or_empty :: "'a list option \<Rightarrow> 'a list" where
  "or_empty xs = (case xs of None \<Rightarrow> [] | Some ys \<Rightarrow> ys)"

definition new_analysis :: "string \<Rightarrow> nat \<Rightarrow> string \<Rightarrow> string \<Rightarrow> string \<Rightarrow> string list option \<Rightarrow> analysis" where
  "new_analysis new_id now uid project_id question file_ids =
     \<lparr>a_id = new_id, a_user_id = uid, a_project_id = project_id, a_question = question,
      a_file_ids = or_empty file_ids, a_status = ''pending'',
      a_current_step = ''analyzing_question'', a_progress = 0, a_steps = initialSteps,
      a_missing_data = [], a_partial_result = JObj [], a_result = JObj [],
      a_created_at = now, a_updated_at = now\<rparr>"

text \<open>
  \<^verbatim>\<open>.insert({...}).select().single()\<close>: the store assigns \<^verbatim>\<open>id\<close> (here
  \<open>new_id\<close>) and both timestamps (here \<open>now\<close>); the primary key rejects an id
  already in the table.
\<close>

definition insert_analysis :: "analysis \<Rightarrow> analysis list \<Rightarrow> analysis list option" where
  "insert_analysis r db = (if a_id r \<in> set (map a_id db) then None else Some (db @ [r]))"

definition project_owned :: "string \<Rightarrow> string \<Rightarrow> project list \<Rightarrow> bool" where
  "project_owned project_id uid ps =
     (case filter (\<lambda>p. pr_id p = project_id \<and> pr_user_id p = uid) ps of [p] \<Rightarrow> True | _ \<Rightarrow> False)"

definition files_owned :: "string list option \<Rightarrow> string \<Rightarrow> string \<Rightarrow> file_row list \<Rightarrow> bool" where
  "files_owned file_ids uid project_id fs =
     (case file_ids of
        None \<Rightarrow> True
      | Some ids \<Rightarrow>
          if length ids > 0
          then length (filter (\<lambda>f. f_user_id f = uid \<and> f_project_id f = project_id \<and> f_id f \<in> set ids) fs)
                 = length ids
          else True)"

definition stream_POST ::
  "string option \<Rightarrow> stream_body option \<Rightarrow> string \<Rightarrow> nat \<Rightarrow> database
     \<Rightarrow> stream_ok response \<times> database \<times> launch_task option" where
  "stream_POST auth body new_id now db =
     (case auth of
        None \<Rightarrow> (AuthResponse, db, None)
      | Some uid \<Rightarrow>
         (case body of
            None \<Rightarrow> (Error 500 ''Failed to start analysis'', db, None)
          | Some b \<Rightarrow>
             (case sb_question b of
                None \<Rightarrow> (Error 400 ''Question is required'', db, None)
              | Some JNull \<Rightarrow> (Error 400 ''Question is required'', db, None)
              | Some (JStr question) \<Rightarrow>
                  if question = [] then (Error 400 ''Question is required'', db, None)
                  else (case sb_project_id b of
                     None \<Rightarrow> (Error 400 ''Project ID is required'', db, None)
                   | Some project_id \<Rightarrow>
                       if project_id = [] then (Error 400 ''Project ID is required'', db, None)
                       else if \<not> project_owned project_id uid (projects db)
                       then (Error 403 ''Project not found or access denied'', db, None)
                       else if \<not> files_owned (sb_file_ids b) uid project_id (files db)
                       then (Error 403 ''Some files not found, access denied, or files belong to different project'', db, None)
                       else (case insert_analysis
                                    (new_analysis new_id now uid project_id question (sb_file_ids b))
                                    (analyses db) of
                               None \<Rightarrow> (Error 500 ''Failed to create analysis'', db, None)
                             | Some as \<Rightarrow>
                                 (Success \<lparr>so_analysis_id = new_id, so_status = ''pending'',
                                           so_current_step = ''analyzing_question'', so_progress = 0,
                                           so_steps = initialSteps\<rparr>,
                                  db\<lparr>analyses := as\<rparr>,
                                  Some \<lparr>l_analysisId = new_id, l_question = question,
                                        l_fileIds = or_empty (sb_file_ids b)\<rparr>)))
              | Some other \<Rightarrow> (Error 500 ''Failed to start analysis'', db, None))))"

subsection \<open>The background task of a launch\<close>

definition task_steps :: "analysis_step list" where
  "task_steps =
     [\<lparr>s_name = ''analyzing_question'', s_label = ''Analyse de la question'',
       s_status = ''in_progress'',
       s_message = Some ''Analyse de la question et extraction des parametres cles...''\<rparr>,
      \<lparr>s_name = ''checking_files'', s_label = ''Verification des fichiers disponibles'',
       s_status = ''pending'', s_message = Some []\<rparr>,
      \<lparr>s_name = ''analyzing_structure'', s_label = ''Analyse de la structure des donnees'',
       s_status = ''pending'', s_message = Some []\<rparr>,
      \<lparr>s_name = ''calculating_metrics'', s_label = ''Calcul des metriques cles'',
       s_status = ''pending'', s_message = Some []\<rparr>,
      \<lparr>s_name = ''generating_scenarios'', s_label = ''Generation des scenarios'',
       s_status = ''pending'', s_message = Some []\<rparr>,
      \<lparr>s_name = ''creating_recommendations'', s_label = ''Creation des recommandations'',
       s_status = ''pending'', s_message = Some []\<rparr>]"

text \<open>
  \<^verbatim>\<open>steps.map((s, i) => ({...s, status: i === k ? 'in_progress' : i < k ? 'completed' : 'pending', message: i === k ? msg : s.message}))\<close>
\<close>

definition steps_at :: "nat \<Rightarrow> string \<Rightarrow> analysis_step list \<Rightarrow> analysis_step list" where
  "steps_at k msg steps =
     map (\<lambda>(i, s). s\<lparr>s_status := (if i = k then ''in_progress''
                                     else if i < k then ''completed'' else ''pending''),
                        s_message := (if i = k then Some msg else s_message s)\<rparr>)
         (enumerate 0 steps)"

definition steps_done :: "analysis_step list \<Rightarrow> analysis_step list" where
  "steps_done steps =
     map (\<lambda>s. s\<lparr>s_status := ''completed'',
                   s_message := (case s_message s of
                                   None \<Rightarrow> Some ''Termine''
                                 | Some m \<Rightarrow> if m = [] then Some ''Termine'' else Some m)\<rparr>)
         steps"

definition launch_start_patch :: patch where
  "launch_start_patch = no_patch\<lparr>p_status := Some ''in_progress'',
                                 p_current_step := Some ''analyzing_question'',
                                 p_progress := Some 5,
                                 p_steps := Some task_steps\<rparr>"

definition checking_files_patch :: patch where
  "checking_files_patch =
     no_patch\<lparr>p_current_step := Some ''checking_files'',
              p_progress := Some 10,
              p_steps := Some (steps_at 1 ''Telechargement et verification des fichiers...'' task_steps)\<rparr>"

definition analyzing_structure_patch :: patch where
  "analyzing_structure_patch =
     no_patch\<lparr>p_current_step := Some ''analyzing_structure'',
              p_progress := Some 20,
              p_steps := Some (steps_at 2 ''Analyse de la structure des donnees et adaptation...'' task_steps)\<rparr>"

definition completed_patch :: patch where
  "completed_patch = no_patch\<lparr>p_status := Some ''completed'',
                              p_current_step := Some ''creating_recommendations'',
                              p_progress := Some 100,
                              p_steps := Some (steps_done task_steps)\<rparr>"

definition result_patch :: "json \<Rightarrow> patch" where
  "result_patch result = no_patch\<lparr>p_result := Some result\<rparr>"

text \<open>
  \<open>filesData\<close> is what \<^verbatim>\<open>downloadFilesForBackend\<close> hands back (the files it could
  fetch; \<open>None\<close> when it throws), \<open>app_url\<close> the configured
  \<^verbatim>\<open>NEXT_PUBLIC_APP_URL\<close>.
\<close>

definition launch_request :: "string \<Rightarrow> launch_task \<Rightarrow> json list \<Rightarrow> ai_request" where
  "launch_request app_url t filesData =
     \<lparr>rq_question = l_question t,
      rq_file_ids = (if length (l_fileIds t) > 0 then Some (l_fileIds t) else None),
      rq_files_data = (if length filesData > 0 then Some filesData else None),
      rq_analysis_id = l_analysisId t,
      rq_provided_data = None,
      rq_update_status_url =
        Some (app_url @ ''/api/decisions/analyze/'' @ l_analysisId t @ ''/update-status'')\<rparr>"

text \<open>
  \<^verbatim>\<open>launchAnalysisAsync\<close> of the stream route: what it does in order, and whether
  the promise rejects. The request it sends carries \<^verbatim>\<open>update_status_url\<close>, through
  which the backend reports its own progress on the update-status route while
  the call lasts. The \<^verbatim>\<open>catch\<close> block writes the failure and rethrows, and the
  handler's \<^verbatim>\<open>.catch\<close> callback (\<open>stream_catch\<close>) writes it once more.
\<close>

definition stream_launchAnalysisAsync ::
  "string \<Rightarrow> launch_task \<Rightarrow> json list option \<Rightarrow> ai_service \<Rightarrow> event list \<times> bool" where
  "stream_launchAnalysisAsync app_url t filesData ai =
     (case filesData of
        None \<Rightarrow> ([Write launch_start_patch, Write checking_files_patch, Write error_patch], True)
      | Some fd \<Rightarrow>
         (case ai (launch_request app_url t fd) of
            AiOk result \<Rightarrow>
              ([Write launch_start_patch, Write checking_files_patch,
                Write analyzing_structure_patch, CallAI (launch_request app_url t fd),
                Write completed_patch, Write (result_patch result)], False)
          | AiNotOk errorText \<Rightarrow>
              ([Write launch_start_patch, Write checking_files_patch,
                Write analyzing_structure_patch, CallAI (launch_request app_url t fd),
                Write error_patch, Write error_patch], True)
          | AiThrows \<Rightarrow>
              ([Write launch_start_patch, Write checking_files_patch,
                Write analyzing_structure_patch, CallAI (launch_request app_url t fd),
                Write error_patch], True)
          | AiMalformed \<Rightarrow>
              ([Write launch_start_patch, Write checking_files_patch,
                Write analyzing_structure_patch, CallAI (launch_request app_url t fd),
                Write error_patch], True)))"

definition stream_catch :: "event list \<times> bool \<Rightarrow> event list" where
  "stream_catch res =
     (case res of (es, rejected) \<Rightarrow> if rejected then es @ [Write error_patch] else es)"

definition launch_run :: "string \<Rightarrow> launch_task \<Rightarrow> json list option \<Rightarrow> ai_service \<Rightarrow> event list" where
  "launch_run app_url t filesData ai =
     stream_catch (stream_launchAnalysisAsync app_url t filesData ai)"

definition launch_writes :: "string \<Rightarrow> launch_task \<Rightarrow> json list option \<Rightarrow> ai_service \<Rightarrow> patch list" where
  "launch_writes app_url t filesData ai = writes_of (launch_run app_url t filesData ai)"

section \<open>The hypothesis guard of the CFO assistant\<close>

text \<open>
  \<^verbatim>\<open>HypothesisChip\<close> of the tabs context; \<^verbatim>\<open>value: string | number\<close>. Chips reach
  the component as decoded JSON, where a number is never NaN, so \<^verbatim>\<open>!==\<close> on
  values is inequality.
\<close>

datatype chip_value = VNum real | VStr string

record HypothesisChip =
  h_id :: string
  h_label :: string
  h_value :: chip_value
  h_type :: string

text \<open>\<^verbatim>\<open>xs[index]\<close>, where an index past the end yields \<^verbatim>\<open>undefined\<close>.\<close>

definition at_index :: "'a list \<Rightarrow> nat \<Rightarrow> 'a option" where
  "at_index xs i = (if i < length xs then Some (xs ! i) else None)"

text \<open>
  \<^verbatim>\<open>currentHypotheses.length !== newHypotheses.length || currentHypotheses.some((hyp, index) => { const newHyp = newHypotheses[index]; return !newHyp || hyp.id !== newHyp.id || hyp.value !== newHyp.value; })\<close>
\<close>

definition hypothesesChanged :: "HypothesisChip list \<Rightarrow> HypothesisChip list \<Rightarrow> bool" where
  "hypothesesChanged currentHypotheses newHypotheses \<longleftrightarrow>
     length currentHypotheses \<noteq> length newHypotheses \<or>
     list_ex (\<lambda>(index, hyp).
                case at_index newHypotheses index of
                  None \<Rightarrow> True
                | Some newHyp \<Rightarrow> h_id hyp \<noteq> h_id newHyp \<or> h_value hyp \<noteq> h_value newHyp)
             (enumerate 0 currentHypotheses)"

record chatResponse =
  cr_response :: "string option"
  cr_updated_hypotheses :: "HypothesisChip list option"
  cr_should_relaunch_analysis :: bool

datatype chat_result = ChatOk chatResponse | ChatFailed

text \<open>
  What \<^verbatim>\<open>handleSubmit\<close> does, in order. The texts of the chat messages are
  display strings; a message is recorded by its kind.
\<close>

datatype message_kind =
  UserMessage | LoadingMessage | AssistantMessage | RelaunchMessage
  | RelaunchErrorMessage | ErrorMessage

datatype effect =
    AddChatMessage message_kind
  | FetchChat string
  | UpdateTabHypothesis "HypothesisChip list"
  | FetchContinue string "string \<rightharpoonup> json"

text \<open>\<^verbatim>\<open>s.replace(pat, '')\<close> with a string pattern: the first occurrence goes.\<close>

fun replace_first :: "string \<Rightarrow> string \<Rightarrow> string" where
  "replace_first pat [] = []"
| "replace_first pat (c # cs) =
     (if take (length pat) (c # cs) = pat then drop (length pat) (c # cs)
      else c # replace_first pat cs)"

definition starts_with :: "string \<Rightarrow> string \<Rightarrow> bool" where
  "starts_with s pat \<longleftrightarrow> take (length pat) s = pat"

definition analysisId_of_tab :: "string \<Rightarrow> string option" where
  "analysisId_of_tab tab_id =
     (if starts_with tab_id ''analysis-'' then Some (replace_first ''analysis-'' tab_id) else None)"

definition chip_json :: "chip_value \<Rightarrow> json" where
  "chip_json v = (case v of VNum n \<Rightarrow> JNum n | VStr s \<Rightarrow> JStr s)"

text \<open>
  \<^verbatim>\<open>hypothesesData[hyp.id] = hyp.value\<close> for each chip in turn: the object is a
  mapping from keys to values, a later chip with the same id overwriting the
  value. The order in which the serialised body lists the keys is not part of
  it.
\<close>

definition hypothesesData :: "HypothesisChip list \<Rightarrow> (string \<rightharpoonup> json)" where
  "hypothesesData hyps =
     foldl (\<lambda>acc hyp. acc(h_id hyp \<mapsto> chip_json (h_value hyp))) Map.empty hyps"

text \<open>
  \<open>message\<close> is \<^verbatim>\<open>input.trim()\<close>, \<open>tab_hypothesis\<close> is \<^verbatim>\<open>tab.hypothesis\<close>,
  \<open>chat\<close> the outcome of the call to the chat endpoint and \<open>relaunch_ok\<close> whether
  the call to the continue endpoint comes back OK. \<open>FetchContinue id data\<close> is
  the call to the continue endpoint of analysis \<open>id\<close> with the body
  \<^verbatim>\<open>{missing_data: {hypotheses: data}}\<close>.
\<close>

definition handleSubmit ::
  "string \<Rightarrow> bool \<Rightarrow> string \<Rightarrow> HypothesisChip list option \<Rightarrow> chat_result \<Rightarrow> bool \<Rightarrow> effect list" where
  "handleSubmit message isLoading tab_id tab_hypothesis chat relaunch_ok =
     (if message = [] \<or> isLoading then []
      else (case analysisId_of_tab tab_id of
              None \<Rightarrow> [AddChatMessage ErrorMessage]
            | Some analysisId \<Rightarrow>
                if analysisId = [] then [AddChatMessage ErrorMessage]
                else
                  [AddChatMessage UserMessage, AddChatMessage LoadingMessage, FetchChat analysisId] @
                  (case chat of
                     ChatFailed \<Rightarrow> [AddChatMessage ErrorMessage]
                   | ChatOk r \<Rightarrow>
                       (let changed = (case cr_updated_hypotheses r of
                                         None \<Rightarrow> False
                                       | Some newHypotheses \<Rightarrow>
                                           hypothesesChanged (or_empty tab_hypothesis) newHypotheses)
                        in [AddChatMessage AssistantMessage] @
                           (case cr_updated_hypotheses r of
                              None \<Rightarrow> []
                            | Some newHypotheses \<Rightarrow>
                                if changed then [UpdateTabHypothesis newHypotheses] else []) @
                           (if cr_should_relaunch_analysis r \<and> changed
                            then [AddChatMessage RelaunchMessage,
                                  FetchContinue analysisId
                                    (hypothesesData (or_empty (cr_updated_hypotheses r)))] @
                                 (if relaunch_ok then [] else [AddChatMessage RelaunchErrorMessage])
                            else [])))))"

fun is_relaunch :: "effect \<Rightarrow> bool" where
  "is_relaunch (FetchContinue a d) = True"
| "is_relaunch e = False"

section \<open>The tabs context: closing, reopening and deleting analysis tabs\<close>

text \<open>
  A tab as far as the listing goes: label, chips, chart data, chat history and
  the formatted report are presentation and are left out.
\<close>

record DecisionTab =
  dt_id :: string
  dt_query :: string

text \<open>
  The provider's state. \<^verbatim>\<open>localStorage\<close> holds, under key
  \<^verbatim>\<open>closed_tabs_<projectId>\<close>, the closed tab ids of that project; it is keyed
  here by the project id.
\<close>

record tabs_state =
  ts_user :: "string option"
  ts_activeProjectId :: "string option"
  ts_activeTabId :: string
  ts_decisionTabs :: "DecisionTab list"
  ts_lastProjectId :: "string option"
  ts_closedTabs :: "string set"
  ts_localStorage :: "string \<rightharpoonup> string set"

text \<open>The template literal \<^verbatim>\<open>`analysis-${analysis.id}`\<close>.\<close>

definition tab_id_of :: "string \<Rightarrow> string" where
  "tab_id_of analysis_id = ''analysis-'' @ analysis_id"

definition tab_of_analysis :: "analysis \<Rightarrow> DecisionTab" where
  "tab_of_analysis analysis = \<lparr>dt_id = tab_id_of (a_id analysis), dt_query = a_question analysis\<rparr>"

text \<open>
  \<^verbatim>\<open>merged.reduce((acc, tab) => { if (!acc.find(t => t.id === tab.id)) acc.push(tab); return acc; }, [])\<close>
\<close>

definition dedupe_tabs :: "DecisionTab list \<Rightarrow> DecisionTab list" where
  "dedupe_tabs merged =
     foldl (\<lambda>acc tab. if list_ex (\<lambda>t. dt_id t = dt_id tab) acc then acc else acc @ [tab]) [] merged"

text \<open>
  The select of \<^verbatim>\<open>loadAnalyses\<close>: the caller's analyses of the project, newest
  first.
\<close>

definition select_analyses :: "string \<Rightarrow> string \<Rightarrow> analysis list \<Rightarrow> analysis list" where
  "select_analyses uid project_id db =
     rev (sort_key a_created_at (filter (\<lambda>r. a_user_id r = uid \<and> a_project_id r = project_id) db))"

definition stored_closed :: "(string \<rightharpoonup> string set) \<Rightarrow> string \<Rightarrow> string set" where
  "stored_closed ls project_id = (case ls project_id of None \<Rightarrow> {} | Some ids \<Rightarrow> ids)"

text \<open>
  \<^verbatim>\<open>loadAnalyses\<close> is built by \<^verbatim>\<open>useCallback\<close> with dependencies \<^verbatim>\<open>user\<close>,
  \<^verbatim>\<open>activeProjectId\<close> and \<^verbatim>\<open>supabase\<close>: it reads these at their current values,
  but \<^verbatim>\<open>lastProjectId\<close> at the value it had when the callback was built. That
  captured value is the argument \<open>lastProjectId\<close>; the state updates go through
  the setters and see the current state.
\<close>

definition loadAnalyses :: "string option \<Rightarrow> tabs_state \<Rightarrow> analysis list \<Rightarrow> tabs_state" where
  "loadAnalyses lastProjectId s db =
     (case (ts_user s, ts_activeProjectId s) of
        (Some uid, Some activeProjectId) \<Rightarrow>
          if activeProjectId = [] then s\<lparr>ts_decisionTabs := []\<rparr>
          else
            (let data = select_analyses uid activeProjectId db;
                 closedTabsForProject = stored_closed (ts_localStorage s) activeProjectId;
                 tabs = map tab_of_analysis
                          (filter (\<lambda>analysis. tab_id_of (a_id analysis) \<notin> closedTabsForProject) data);
                 projectChanged = (lastProjectId \<noteq> None \<and>
                                   lastProjectId \<noteq> Some activeProjectId);
                 activeTempTabs =
                   (if projectChanged then []
                    else filter (\<lambda>t. starts_with (dt_id t) ''decision-'' \<and>
                                      dt_id t \<notin> set (map dt_id tabs))
                                (ts_decisionTabs s));
                 mergedTabs = dedupe_tabs (activeTempTabs @ tabs)
             in s\<lparr>ts_decisionTabs := mergedTabs,
                  ts_lastProjectId := Some activeProjectId,
                  ts_activeTabId :=
                    (if ts_activeTabId s \<noteq> ''dashboard'' \<and>
                        \<not> list_ex (\<lambda>t. dt_id t = ts_activeTabId s) mergedTabs
                     then ''dashboard'' else ts_activeTabId s)\<rparr>)
      | _ \<Rightarrow> s\<lparr>ts_decisionTabs := []\<rparr>)"

text \<open>
  \<^verbatim>\<open>setClosedTabs(prev => { ...; saveClosedTabs(activeProjectId, newClosed); return newClosed; })\<close>
\<close>

definition set_closed :: "string \<Rightarrow> string set \<Rightarrow> tabs_state \<Rightarrow> tabs_state" where
  "set_closed project_id newClosed s =
     s\<lparr>ts_closedTabs := newClosed,
       ts_localStorage := (ts_localStorage s)(project_id \<mapsto> newClosed)\<rparr>"

definition closeTab :: "string \<Rightarrow> tabs_state \<Rightarrow> tabs_state" where
  "closeTab tabId s =
     (let s1 = (case ts_activeProjectId s of
                  None \<Rightarrow> s
                | Some activeProjectId \<Rightarrow>
                    if starts_with tabId ''analysis-'' \<and> activeProjectId \<noteq> []
                    then set_closed activeProjectId (insert tabId (ts_closedTabs s)) s
                    else s);
          s2 = s1\<lparr>ts_decisionTabs := filter (\<lambda>tab. dt_id tab \<noteq> tabId) (ts_decisionTabs s1)\<rparr>
      in if ts_activeTabId s = tabId then s2\<lparr>ts_activeTabId := ''dashboard''\<rparr> else s2)"

text \<open>
  \<^verbatim>\<open>reopenTab\<close> starts \<^verbatim>\<open>loadAnalyses\<close> (with the \<open>lastProjectId\<close> that callback
  captured) and sets the active tab at once; the reload finishes after the store
  has answered, so its state updates come last.
\<close>

definition reopenTab :: "string option \<Rightarrow> string \<Rightarrow> tabs_state \<Rightarrow> analysis list \<Rightarrow> tabs_state" where
  "reopenTab lastProjectId tabId s db =
     (case ts_activeProjectId s of
        None \<Rightarrow> s
      | Some activeProjectId \<Rightarrow>
          if activeProjectId = [] then s
          else (let s1 = set_closed activeProjectId (ts_closedTabs s - {tabId}) s;
                    s2 = s1\<lparr>ts_activeTabId := tabId\<rparr>
                in loadAnalyses lastProjectId s2 db))"

text \<open>
  \<^verbatim>\<open>.delete().eq('id', analysisId).eq('user_id', user.id)\<close>, then the purge of
  the closed set. A delete violates no constraint of the table, so the branch
  that rethrows the store's error has no counterpart here.
\<close>

definition delete_where :: "(analysis \<Rightarrow> bool) \<Rightarrow> analysis list \<Rightarrow> analysis list" where
  "delete_where P db = filter (\<lambda>r. \<not> P r) db"

definition permanentlyDeleteTab :: "string \<Rightarrow> tabs_state \<Rightarrow> analysis list \<Rightarrow> tabs_state \<times> analysis list" where
  "permanentlyDeleteTab tabId s db =
     (let analysisId = replace_first ''analysis-'' tabId
      in case ts_user s of
           None \<Rightarrow> (s, db)
         | Some uid \<Rightarrow>
             if analysisId = [] then (s, db)
             else (let db' = delete_where (\<lambda>r. a_id r = analysisId \<and> a_user_id r = uid) db
                   in case ts_activeProjectId s of
                        None \<Rightarrow> (s, db')
                      | Some activeProjectId \<Rightarrow>
                          if activeProjectId = [] then (s, db')
                          else (set_closed activeProjectId (ts_closedTabs s - {tabId}) s, db')))"

section \<open>Runs of a background task\<close>

text \<open>
  Seen from its own writes, a run is the table after each of them, taken one
  after the other with nothing else written in between (\<open>run_writes\<close>, oldest
  first); \<open>clock k\<close> is the time at which write number \<open>k\<close> runs.
  \<open>find_analysis\<close> is the row with a given id, \<open>final_table\<close> the table once all
  writes are through, \<open>progress_trace\<close> the stored progress of the job after each
  write.
\<close>

fun run_writes ::
  "string \<Rightarrow> (nat \<Rightarrow> nat) \<Rightarrow> nat \<Rightarrow> patch list \<Rightarrow> analysis list \<Rightarrow> analysis list list" where
  "run_writes aid clock k [] db = []"
| "run_writes aid clock k (p # ps) db =
     write_by_id (clock k) aid p db #
     run_writes aid clock (Suc k) ps (write_by_id (clock k) aid p db)"

definition find_analysis :: "string \<Rightarrow> analysis list \<Rightarrow> analysis option" where
  "find_analysis aid db = find (\<lambda>r. a_id r = aid) db"


definition progress_trace ::
  "string \<Rightarrow> (nat \<Rightarrow> nat) \<Rightarrow> patch list \<Rightarrow> analysis list \<Rightarrow> int list" where
  "progress_trace aid clock ws db =
     List.map_filter (\<lambda>d. map_option a_progress (find_analysis aid d)) (run_writes aid clock 0 ws db)"

definition is_error_write :: "patch \<Rightarrow> bool" where
  "is_error_write p \<longleftrightarrow> p_status p = Some ''error''"

text \<open>The same run seen on one row.\<close>

fun row_states :: "(nat \<Rightarrow> nat) \<Rightarrow> nat \<Rightarrow> patch list \<Rightarrow> analysis \<Rightarrow> analysis list" where
  "row_states clock k [] r = []"
| "row_states clock k (p # ps) r =
     touch (clock k) p r # row_states clock (Suc k) ps (touch (clock k) p r)"


section \<open>The specification's notion of a covering data mapping\<close>

text \<open>
  Following the specification's words (section 4.3): a supplied mapping covers
  the missing items when it has a key for the id of every item flagged
  required.
\<close>

definition spec_covers_required :: "json option \<Rightarrow> missing_data_item list \<Rightarrow> bool" where
  "spec_covers_required supplied items \<longleftrightarrow>
     (case supplied of
        Some (JObj kvs) \<Rightarrow> list_all (\<lambda>item. md_required item \<longrightarrow> md_id item \<in> set (map fst kvs)) items
      | _ \<Rightarrow> list_all (\<lambda>item. \<not> md_required item) items)"

section \<open>Sample records\<close>

definition job_completed :: analysis where
  "job_completed =
     \<lparr>a_id = ''a1'', a_user_id = ''u1'', a_project_id = ''p1'',
      a_question = ''Can I hire at 60000?'', a_file_ids = [],
      a_status = ''completed'', a_current_step = ''creating_recommendations'',
      a_progress = 100, a_steps = steps_done task_steps, a_missing_data = [],
      a_partial_result = JObj [], a_result = JObj [(''full_analysis_text'', JStr ''yes'')],
      a_created_at = 1, a_updated_at = 1\<rparr>"

definition salary_item :: missing_data_item where
  "salary_item = \<lparr>md_id = ''salary'', md_type = ''number'',
                   md_description = ''Salaire brut'', md_required = True\<rparr>"

definition job_waiting :: analysis where
  "job_waiting =
     \<lparr>a_id = ''a2'', a_user_id = ''u1'', a_project_id = ''p1'',
      a_question = ''Can I hire?'', a_file_ids = [''f1''],
      a_status = ''waiting_for_data'', a_current_step = ''calculating_metrics'',
      a_progress = 40, a_steps = steps_at 3 [] task_steps, a_missing_data = [salary_item],
      a_partial_result = JObj [], a_result = JObj [],
      a_created_at = 2, a_updated_at = 2\<rparr>"

definition job_running :: analysis where
  "job_running =
     \<lparr>a_id = ''a3'', a_user_id = ''u1'', a_project_id = ''p1'',
      a_question = ''Should I raise prices?'', a_file_ids = [],
      a_status = ''in_progress'', a_current_step = ''analyzing_structure'',
      a_progress = 20,
      a_steps = steps_at 2 ''Analyse de la structure des donnees et adaptation...'' task_steps,
      a_missing_data = [],
      a_partial_result = JObj [], a_result = JObj [],
      a_created_at = 3, a_updated_at = 3\<rparr>"

definition progress_only :: "int \<Rightarrow> update_status_body" where
  "progress_only n = \<lparr>b_status = None, b_current_step = None, b_progress = Some n,
                       b_steps = None, b_message = None, b_missing_data = None\<rparr>"

definition chip_salary :: HypothesisChip where
  "chip_salary = \<lparr>h_id = ''salary'', h_label = ''Salaire brut'', h_value = VNum 60000,
                   h_type = ''number''\<rparr>"

definition job_created :: analysis where
  "job_created = new_analysis ''a4'' 4 ''u1'' ''p1'' ''Can I hire at 60000?'' None"

definition sample_db :: database where
  "sample_db =
     \<lparr>projects = [\<lparr>pr_id = ''p1'', pr_user_id = ''u1''\<rparr>, \<lparr>pr_id = ''p2'', pr_user_id = ''u2''\<rparr>],
      files = [\<lparr>f_id = ''f1'', f_user_id = ''u1'', f_project_id = ''p1''\<rparr>],
      analyses = [job_completed]\<rparr>"

definition body_own_project :: stream_body where
  "body_own_project = \<lparr>sb_question = Some (JStr ''Can I hire at 60000?''),
                        sb_file_ids = Some [''f1''], sb_project_id = Some ''p1''\<rparr>"

definition body_foreign_project :: stream_body where
  "body_foreign_project = \<lparr>sb_question = Some (JStr ''Can I hire at 60000?''),
                            sb_file_ids = None, sb_project_id = Some ''p2''\<rparr>"

definition sample_tabs :: tabs_state where
  "sample_tabs =
     \<lparr>ts_user = Some ''u1'', ts_activeProjectId = Some ''p1'', ts_activeTabId = tab_id_of ''a1'',
      ts_decisionTabs = [tab_of_analysis job_completed, tab_of_analysis job_waiting],
      ts_lastProjectId = Some ''p1'', ts_closedTabs = {}, ts_localStorage = Map.empty\<rparr>"

definition body_foreign_file :: stream_body where
  "body_foreign_file = \<lparr>sb_question = Some (JStr ''Can I hire at 60000?''),
                         sb_file_ids = Some [''f2''], sb_project_id = Some ''p1''\<rparr>"

definition sample_clock :: "nat \<Rightarrow> nat" where
  "sample_clock k = 10 + k"

definition sample_launch :: launch_task where
  "sample_launch = \<lparr>l_analysisId = ''a4'', l_question = ''Can I hire at 60000?'', l_fileIds = []\<rparr>"



fun ai_not_ok :: ai_service where
  "ai_not_ok rq = AiNotOk ''boom''"


fun ai_report :: ai_service where
  "ai_report rq = AiOk (JObj [(''full_analysis_text'', JStr ''yes'')])"


section \<open>Facts about the store\<close>

lemma select_single_SomeD:
  "select_single P db = Some r \<Longrightarrow> r \<in> set db \<and> P r"
  unfolding select_single_def
  by (auto split: list.splits dest!: arg_cong[where f=set])

lemma update_where_length: "update_where now P p db = Some db' \<Longrightarrow> length db' = length db"
  by (auto simp: update_where_def split: if_splits)

lemma update_where_nth:
  "update_where now P p db = Some db' \<Longrightarrow> i < length db \<Longrightarrow>
   db' ! i = (if P (db ! i) then touch now p (db ! i) else db ! i)"
  by (auto simp: update_where_def split: if_splits)

lemma update_where_no_match:
  "filter P db = [] \<Longrightarrow> update_where now P p db = Some db"
  by (auto simp: update_where_def filter_empty_conv list_ex_iff intro: map_idI)

lemma apply_patch_frame:
  "a_id (apply_patch p r) = a_id r \<and> a_user_id (apply_patch p r) = a_user_id r \<and>
   a_project_id (apply_patch p r) = a_project_id r \<and> a_question (apply_patch p r) = a_question r \<and>
   a_file_ids (apply_patch p r) = a_file_ids r \<and> a_partial_result (apply_patch p r) = a_partial_result r \<and>
   a_created_at (apply_patch p r) = a_created_at r"
  by (simp add: apply_patch_def)

lemma apply_patch_fields:
  "a_status (apply_patch p r) = (case p_status p of None \<Rightarrow> a_status r | Some v \<Rightarrow> v)"
  "a_current_step (apply_patch p r) = (case p_current_step p of None \<Rightarrow> a_current_step r | Some v \<Rightarrow> v)"
  "a_progress (apply_patch p r) = (case p_progress p of None \<Rightarrow> a_progress r | Some v \<Rightarrow> v)"
  "a_steps (apply_patch p r) = (case p_steps p of None \<Rightarrow> a_steps r | Some v \<Rightarrow> v)"
  "a_missing_data (apply_patch p r) = (case p_missing_data p of None \<Rightarrow> a_missing_data r | Some v \<Rightarrow> v)"
  "a_result (apply_patch p r) = (case p_result p of None \<Rightarrow> a_result r | Some v \<Rightarrow> v)"
  by (simp_all add: apply_patch_def)

lemma touch_fields:
  "a_id (touch now p r) = a_id r" "a_user_id (touch now p r) = a_user_id r"
  "a_project_id (touch now p r) = a_project_id r" "a_question (touch now p r) = a_question r"
  "a_file_ids (touch now p r) = a_file_ids r"
  "a_partial_result (touch now p r) = a_partial_result r"
  "a_created_at (touch now p r) = a_created_at r"
  "a_status (touch now p r) = a_status (apply_patch p r)"
  "a_current_step (touch now p r) = a_current_step (apply_patch p r)"
  "a_progress (touch now p r) = a_progress (apply_patch p r)"
  "a_steps (touch now p r) = a_steps (apply_patch p r)"
  "a_missing_data (touch now p r) = a_missing_data (apply_patch p r)"
  "a_result (touch now p r) = a_result (apply_patch p r)"
  "a_updated_at (touch now p r) = now"
  by (simp_all add: touch_def apply_patch_def)

section \<open>The continue route\<close>

lemma check_ok_resume: "check_ok resume_patch"
  by (simp add: check_ok_def resume_patch_def no_patch_def status_values_def)

lemma apply_resume_patch:
  "touch now resume_patch r =
     r\<lparr>a_status := ''in_progress'', a_current_step := ''analyzing_structure'',
       a_progress := 20, a_missing_data := [], a_updated_at := now\<rparr>"
  by (simp add: touch_def apply_patch_def resume_patch_def no_patch_def)

lemma continue_POST_unauth: "continue_POST now None aid body db = (AuthResponse, db, None)"
  by (simp add: continue_POST_def)

lemma continue_POST_no_id:
  "continue_POST now (Some uid) [] body db = (Error 400 ''Analysis ID is required'', db, None)"
  by (simp add: continue_POST_def)

lemma continue_POST_not_found:
  "aid \<noteq> [] \<Longrightarrow> select_single (\<lambda>r. a_id r = aid \<and> a_user_id r = uid) db = None \<Longrightarrow>
   continue_POST now (Some uid) aid (Some md) db =
     (Error 404 ''Analysis not found or access denied'', db, None)"
  by (simp add: continue_POST_def)

lemma continue_POST_found:
  "aid \<noteq> [] \<Longrightarrow> select_single (\<lambda>r. a_id r = aid \<and> a_user_id r = uid) db = Some job \<Longrightarrow>
   continue_POST now (Some uid) aid (Some md) db =
     (Success \<lparr>co_analysis_id = aid, co_status = ''in_progress''\<rparr>,
      map (\<lambda>r. if a_id r = aid
                then r\<lparr>a_status := ''in_progress'', a_current_step := ''analyzing_structure'',
                       a_progress := 20, a_missing_data := [], a_updated_at := now\<rparr>
                else r) db,
      Some \<lparr>t_analysisId = aid, t_question = a_question job,
            t_fileIds = a_file_ids job, t_providedData = md\<rparr>)"
  by (simp add: continue_POST_def update_where_def check_ok_resume apply_resume_patch)

lemma continue_POST_rejects_keep:
  assumes "\<forall>ok. fst (continue_POST now auth aid body db) \<noteq> Success ok"
  shows "snd (continue_POST now auth aid body db) = (db, None)"
proof (cases auth)
  case None
  then show ?thesis by (simp add: continue_POST_unauth)
next
  case (Some uid)
  show ?thesis
  proof (cases "aid = []")
    case True
    then show ?thesis using Some by (simp add: continue_POST_no_id)
  next
    case ne: False
    show ?thesis
    proof (cases body)
      case None
      then show ?thesis using Some ne by (simp add: continue_POST_def)
    next
      case b: (Some md)
      show ?thesis
      proof (cases "select_single (\<lambda>r. a_id r = aid \<and> a_user_id r = uid) db")
        case None
        then show ?thesis using Some ne b by (simp add: continue_POST_not_found)
      next
        case (Some job)
        from continue_POST_found[OF ne Some, of now md] assms \<open>auth = Some uid\<close> b
        show ?thesis by simp
      qed
    qed
  qed
qed

lemma resumed_rows:
  assumes "r' \<in> set (map (\<lambda>r. if a_id r = aid
                then r\<lparr>a_status := ''in_progress'', a_current_step := ''analyzing_structure'',
                       a_progress := 20, a_missing_data := [], a_updated_at := now\<rparr>
                else r) db)" and i: "a_id r' = aid"
  shows "a_missing_data r' = [] \<and> a_status r' = ''in_progress'' \<and> a_progress r' = 20"
proof -
  from assms(1) obtain r where "r \<in> set db" and r': "r' = (if a_id r = aid
                then r\<lparr>a_status := ''in_progress'', a_current_step := ''analyzing_structure'',
                       a_progress := 20, a_missing_data := [], a_updated_at := now\<rparr>
                else r)"
    unfolding set_map by blast
  show ?thesis
  proof (cases "a_id r = aid")
    case True then show ?thesis using r' by simp
  next
    case False then show ?thesis using r' i by simp
  qed
qed

lemma continue_completed_example:
  "continue_POST 9 (Some ''u1'') ''a1'' (Some (Some (JObj []))) [job_completed] =
     (Success \<lparr>co_analysis_id = ''a1'', co_status = ''in_progress''\<rparr>,
      [job_completed\<lparr>a_status := ''in_progress'', a_current_step := ''analyzing_structure'',
                      a_progress := 20, a_updated_at := 9\<rparr>],
      Some \<lparr>t_analysisId = ''a1'', t_question = ''Can I hire at 60000?'',
            t_fileIds = [], t_providedData = Some (JObj [])\<rparr>)"
  by (simp add: continue_POST_def select_single_def job_completed_def update_where_def
        check_ok_resume apply_resume_patch)

lemma continue_waiting_example:
  "continue_POST 9 (Some ''u1'') ''a2'' (Some (Some supplied)) [job_waiting] =
     (Success \<lparr>co_analysis_id = ''a2'', co_status = ''in_progress''\<rparr>,
      [job_waiting\<lparr>a_status := ''in_progress'', a_current_step := ''analyzing_structure'',
                    a_progress := 20, a_missing_data := [], a_updated_at := 9\<rparr>],
      Some \<lparr>t_analysisId = ''a2'', t_question = ''Can I hire?'',
            t_fileIds = [''f1''], t_providedData = Some supplied\<rparr>)"
  by (simp add: continue_POST_def select_single_def job_waiting_def update_where_def
        check_ok_resume apply_resume_patch)

text \<open>
  C1, as stated, fails: the handler never reads the status of the job. A resume
  of a job whose status is \<^verbatim>\<open>completed\<close> (the call the CFO assistant issues to
  relaunch a finished analysis) is answered with success, not with an
  InvalidTransition error, and the record is rewritten.
\<close>

theorem resume_completed_job_counterexample:
  "a_status job_completed \<noteq> ''waiting_for_data'' \<and>
   continue_POST 9 (Some ''u1'') ''a1'' (Some (Some (JObj []))) [job_completed] =
     (Success \<lparr>co_analysis_id = ''a1'', co_status = ''in_progress''\<rparr>,
      [job_completed\<lparr>a_status := ''in_progress'', a_current_step := ''analyzing_structure'',
                      a_progress := 20, a_updated_at := 9\<rparr>],
      Some \<lparr>t_analysisId = ''a1'', t_question = ''Can I hire at 60000?'',
            t_fileIds = [], t_providedData = Some (JObj [])\<rparr>) \<and>
   [job_completed\<lparr>a_status := ''in_progress'', a_current_step := ''analyzing_structure'',
                   a_progress := 20, a_updated_at := 9\<rparr>] \<noteq> [job_completed]"
proof -
  have "a_status job_completed \<noteq> ''waiting_for_data''"
    by (simp add: job_completed_def)
  moreover have "[job_completed\<lparr>a_status := ''in_progress'', a_current_step := ''analyzing_structure'',
                   a_progress := 20, a_updated_at := 9\<rparr>] \<noteq> [job_completed]"
    by (simp add: job_completed_def)
  ultimately show ?thesis using continue_completed_example by simp
qed

text \<open>
  C1, amended: a resume is applied to every job of the caller, whatever its
  status. When exactly one row has the given id and belongs to the caller, the
  call succeeds; every row with that id gets status \<^verbatim>\<open>in_progress\<close>, current
  step \<^verbatim>\<open>analyzing_structure\<close>, progress 20, an empty missing-data list and, by
  the table's trigger, the time of the update as \<^verbatim>\<open>updated_at\<close>, all other
  fields and rows staying as they are; and the background task is started with
  the job's question, files and the supplied data. A call that is not answered
  with success, for whatever reason, leaves the table as it is and starts no
  task.
\<close>

theorem resume_applied_in_every_status:
  assumes "select_single (\<lambda>r. a_id r = aid \<and> a_user_id r = uid) db = Some job" and "aid \<noteq> []"
  shows "continue_POST now (Some uid) aid (Some md) db =
     (Success \<lparr>co_analysis_id = aid, co_status = ''in_progress''\<rparr>,
      map (\<lambda>r. if a_id r = aid
                then r\<lparr>a_status := ''in_progress'', a_current_step := ''analyzing_structure'',
                       a_progress := 20, a_missing_data := [], a_updated_at := now\<rparr>
                else r) db,
      Some \<lparr>t_analysisId = aid, t_question = a_question job,
            t_fileIds = a_file_ids job, t_providedData = md\<rparr>) \<and>
     (\<forall>now' auth' aid' body'.
        (\<forall>ok. fst (continue_POST now' auth' aid' body' db) \<noteq> Success ok) \<longrightarrow>
        snd (continue_POST now' auth' aid' body' db) = (db, None))"
  using continue_POST_found[OF assms(2) assms(1)] continue_POST_rejects_keep by blast

theorem resume_applied_in_every_status_witness:
  "select_single (\<lambda>r. a_id r = ''a1'' \<and> a_user_id r = ''u1'') [job_completed] = Some job_completed \<and>
   ''a1'' \<noteq> [] \<and>
   fst (continue_POST 9 (Some ''u1'') ''a1'' (Some None) [job_completed]) =
     Success \<lparr>co_analysis_id = ''a1'', co_status = ''in_progress''\<rparr>"
proof -
  have h: "select_single (\<lambda>r. a_id r = ''a1'' \<and> a_user_id r = ''u1'') [job_completed] = Some job_completed"
    by (simp add: select_single_def job_completed_def)
  have n: "''a1'' \<noteq> []" by simp
  show ?thesis using resume_applied_in_every_status[OF h n, of 9 None] h by simp
qed

text \<open>
  C2, as stated, fails: the handler never compares the supplied mapping with
  the missing-data list. For a job waiting on the required item \<^verbatim>\<open>salary\<close>, a
  resume with the empty mapping is answered with success, not with a
  MissingRequiredField error, and the missing-data list is emptied.
\<close>

theorem resume_uncovered_required_counterexample:
  "a_status job_waiting = ''waiting_for_data'' \<and>
   a_missing_data job_waiting = [salary_item] \<and>
   md_required salary_item \<and>
   \<not> spec_covers_required (Some (JObj [])) (a_missing_data job_waiting) \<and>
   continue_POST 9 (Some ''u1'') ''a2'' (Some (Some (JObj []))) [job_waiting] =
     (Success \<lparr>co_analysis_id = ''a2'', co_status = ''in_progress''\<rparr>,
      [job_waiting\<lparr>a_status := ''in_progress'', a_current_step := ''analyzing_structure'',
                    a_progress := 20, a_missing_data := [], a_updated_at := 9\<rparr>],
      Some \<lparr>t_analysisId = ''a2'', t_question = ''Can I hire?'',
            t_fileIds = [''f1''], t_providedData = Some (JObj [])\<rparr>)"
proof -
  have "a_status job_waiting = ''waiting_for_data''" "a_missing_data job_waiting = [salary_item]"
    by (simp_all add: job_waiting_def)
  moreover have "md_required salary_item" by (simp add: salary_item_def)
  moreover have "\<not> spec_covers_required (Some (JObj [])) (a_missing_data job_waiting)"
    by (simp add: spec_covers_required_def job_waiting_def salary_item_def)
  ultimately show ?thesis using continue_waiting_example[of "JObj []"] by simp
qed

text \<open>
  C2, amended: the outcome of a resume does not depend on the supplied mapping.
  Two calls that differ only in the mapping get the same reply and leave the
  same table; and whenever the call succeeds, whatever the mapping covers, every
  row with the job's id has an empty missing-data list afterwards. (The mapping
  is only handed on to the relaunched task; required fields are marked in the
  browser form alone.)
\<close>

theorem resume_ignores_supplied_mapping:
  "fst (continue_POST now auth aid (Some md) db) = fst (continue_POST now auth aid (Some md') db) \<and>
   fst (snd (continue_POST now auth aid (Some md) db)) = fst (snd (continue_POST now auth aid (Some md') db)) \<and>
   (\<forall>ok. fst (continue_POST now auth aid (Some md) db) = Success ok \<longrightarrow>
      (\<forall>r \<in> set (fst (snd (continue_POST now auth aid (Some md) db))).
          a_id r = aid \<longrightarrow> a_missing_data r = []))"
proof (cases auth)
  case None
  then show ?thesis by (simp add: continue_POST_unauth)
next
  case (Some uid)
  show ?thesis
  proof (cases "aid = []")
    case True
    then show ?thesis using Some by (simp add: continue_POST_no_id)
  next
    case ne: False
    show ?thesis
    proof (cases "select_single (\<lambda>r. a_id r = aid \<and> a_user_id r = uid) db")
      case None
      then show ?thesis using Some ne by (simp add: continue_POST_not_found)
    next
      case (Some job)
      note f = continue_POST_found[OF ne Some]
      show ?thesis unfolding \<open>auth = Some uid\<close> f fst_conv snd_conv using resumed_rows by blast
    qed
  qed
qed

theorem resume_ignores_supplied_mapping_witness:
  "fst (continue_POST 9 (Some ''u1'') ''a2'' (Some (Some (JObj []))) [job_waiting]) =
      Success \<lparr>co_analysis_id = ''a2'', co_status = ''in_progress''\<rparr> \<and>
   fst (continue_POST 9 (Some ''u1'') ''a2'' (Some (Some (JObj [(''salary'', JNum 60000)]))) [job_waiting]) =
      Success \<lparr>co_analysis_id = ''a2'', co_status = ''in_progress''\<rparr> \<and>
   map a_id (fst (snd (continue_POST 9 (Some ''u1'') ''a2'' (Some (Some (JObj []))) [job_waiting]))) = [''a2''] \<and>
   map a_missing_data
     (fst (snd (continue_POST 9 (Some ''u1'') ''a2'' (Some (Some (JObj []))) [job_waiting]))) = [[]]"
proof -
  have h: "fst (continue_POST 9 (Some ''u1'') ''a2'' (Some (Some (JObj []))) [job_waiting]) =
      Success \<lparr>co_analysis_id = ''a2'', co_status = ''in_progress''\<rparr>"
    by (simp add: continue_waiting_example)
  have d: "fst (snd (continue_POST 9 (Some ''u1'') ''a2'' (Some (Some (JObj []))) [job_waiting])) =
      [job_waiting\<lparr>a_status := ''in_progress'', a_current_step := ''analyzing_structure'',
                    a_progress := 20, a_missing_data := [], a_updated_at := 9\<rparr>]"
    by (simp add: continue_waiting_example)
  have i: "a_id job_waiting = ''a2''" by (simp add: job_waiting_def)
  have e: "fst (continue_POST 9 (Some ''u1'') ''a2'' (Some (Some (JObj []))) [job_waiting]) =
           fst (continue_POST 9 (Some ''u1'') ''a2'' (Some (Some (JObj [(''salary'', JNum 60000)]))) [job_waiting])"
    using resume_ignores_supplied_mapping[of 9 "Some ''u1''" "''a2''" "Some (JObj [])" "[job_waiting]"
         "Some (JObj [(''salary'', JNum 60000)])"] by (rule conjunct1)
  have h': "fst (continue_POST 9 (Some ''u1'') ''a2'' (Some (Some (JObj [(''salary'', JNum 60000)]))) [job_waiting]) =
      Success \<lparr>co_analysis_id = ''a2'', co_status = ''in_progress''\<rparr>"
    using e h by simp
  have m: "map a_id (fst (snd (continue_POST 9 (Some ''u1'') ''a2'' (Some (Some (JObj []))) [job_waiting]))) = [''a2'']"
    unfolding d using i by simp
  have n: "map a_missing_data
     (fst (snd (continue_POST 9 (Some ''u1'') ''a2'' (Some (Some (JObj []))) [job_waiting]))) = [[]]"
    unfolding d by simp
  from h h' m n show ?thesis by (intro conjI)
qed

lemma relaunch_run_starts:
  "\<exists>rest. relaunch_run t ai = Write relaunch_start_patch # CallAI (continue_request t) # rest"
  by (cases "ai (continue_request t)")
     (simp_all add: relaunch_run_def continue_catch_def continue_launchAnalysisAsync_def)

lemma relaunch_start_progress: "p_progress relaunch_start_patch = Some 20"
  by (simp add: relaunch_start_patch_def no_patch_def)

text \<open>
  C6: every successful resume leaves the job (each row with its id, and there is
  one) with an empty missing-data list, status \<^verbatim>\<open>in_progress\<close> and progress 20,
  the one fixed restart value; and it starts the task which, whatever the
  service does, first writes the restart (progress 20 again) and then calls the
  AI service with a request that carries the job's id, the job's original
  question and the supplied data.
\<close>

theorem resume_success_effects:
  assumes "continue_POST now auth aid body db = (Success ok, db', task)"
  shows "\<exists>uid md job t.
           auth = Some uid \<and> body = Some md \<and> job \<in> set db \<and> a_id job = aid \<and> a_user_id job = uid \<and>
           (\<exists>r' \<in> set db'. a_id r' = aid) \<and>
           (\<forall>r' \<in> set db'. a_id r' = aid \<longrightarrow>
              a_missing_data r' = [] \<and> a_status r' = ''in_progress'' \<and> a_progress r' = 20) \<and>
           task = Some t \<and>
           (\<forall>ai. \<exists>rq rest.
              relaunch_run t ai = Write relaunch_start_patch # CallAI rq # rest \<and>
              p_progress relaunch_start_patch = Some 20 \<and>
              rq_analysis_id rq = aid \<and>
              rq_question rq = a_question job \<and>
              rq_provided_data rq = md)"
proof -
  from assms obtain uid where a: "auth = Some uid"
    by (auto simp: continue_POST_def split: option.splits)
  from assms a have ne: "aid \<noteq> []"
    by (auto simp: continue_POST_def split: option.splits if_splits)
  from assms a ne obtain md where b: "body = Some md"
    by (auto simp: continue_POST_def split: option.splits)
  from assms a ne b obtain job where s: "select_single (\<lambda>r. a_id r = aid \<and> a_user_id r = uid) db = Some job"
    by (auto simp: continue_POST_def split: option.splits)
  from select_single_SomeD[OF s] have j: "job \<in> set db" "a_id job = aid" "a_user_id job = uid" by auto
  from continue_POST_found[OF ne s, of now md] assms a b
  have db': "db' = map (\<lambda>r. if a_id r = aid
                then r\<lparr>a_status := ''in_progress'', a_current_step := ''analyzing_structure'',
                       a_progress := 20, a_missing_data := [], a_updated_at := now\<rparr>
                else r) db"
    and t: "task = Some \<lparr>t_analysisId = aid, t_question = a_question job,
            t_fileIds = a_file_ids job, t_providedData = md\<rparr>"
    by simp_all
  have "(\<lambda>r. if a_id r = aid
                then r\<lparr>a_status := ''in_progress'', a_current_step := ''analyzing_structure'',
                       a_progress := 20, a_missing_data := [], a_updated_at := now\<rparr>
                else r) job \<in> set db'"
    unfolding db' set_map using j(1) by (rule imageI)
  then have e: "\<exists>r' \<in> set db'. a_id r' = aid"
    using j(2) by (intro bexI) simp_all
  have f: "\<forall>r' \<in> set db'. a_id r' = aid \<longrightarrow>
              a_missing_data r' = [] \<and> a_status r' = ''in_progress'' \<and> a_progress r' = 20"
    unfolding db' using resumed_rows by blast
  let ?t = "\<lparr>t_analysisId = aid, t_question = a_question job,
            t_fileIds = a_file_ids job, t_providedData = md\<rparr>"
  have g: "rq_analysis_id (continue_request ?t) = aid \<and>
           rq_question (continue_request ?t) = a_question job \<and>
           rq_provided_data (continue_request ?t) = md"
    by (simp add: continue_request_def)
  have r: "\<forall>ai. \<exists>rq rest.
              relaunch_run ?t ai = Write relaunch_start_patch # CallAI rq # rest \<and>
              p_progress relaunch_start_patch = Some 20 \<and>
              rq_analysis_id rq = aid \<and>
              rq_question rq = a_question job \<and>
              rq_provided_data rq = md"
  proof
    fix ai
    from relaunch_run_starts[of ?t ai] obtain rest where
      "relaunch_run ?t ai = Write relaunch_start_patch # CallAI (continue_request ?t) # rest" by blast
    with g relaunch_start_progress show "\<exists>rq rest.
              relaunch_run ?t ai = Write relaunch_start_patch # CallAI rq # rest \<and>
              p_progress relaunch_start_patch = Some 20 \<and>
              rq_analysis_id rq = aid \<and>
              rq_question rq = a_question job \<and>
              rq_provided_data rq = md" by blast
  qed
  show ?thesis
    apply (rule exI[of _ uid], rule exI[of _ md], rule exI[of _ job], rule exI[of _ ?t])
    using a b j e f t r by blast
qed

lemma relaunch_run_report_example:
  "relaunch_run \<lparr>t_analysisId = ''a2'', t_question = ''Can I hire?'', t_fileIds = [''f1''],
                  t_providedData = Some (JObj [(''salary'', JNum 60000)])\<rparr> ai_report =
     [Write relaunch_start_patch,
      CallAI \<lparr>rq_question = ''Can I hire?'', rq_file_ids = Some [''f1''], rq_files_data = None,
              rq_analysis_id = ''a2'',
              rq_provided_data = Some (JObj [(''salary'', JNum 60000)]),
              rq_update_status_url = None\<rparr>,
      Write (relaunch_done_patch (JObj [(''full_analysis_text'', JStr ''yes'')]))]"
  by (simp add: relaunch_run_def continue_catch_def continue_launchAnalysisAsync_def continue_request_def)

theorem resume_success_effects_witness:
  "continue_POST 9 (Some ''u1'') ''a2'' (Some (Some (JObj [(''salary'', JNum 60000)]))) [job_waiting] =
     (Success \<lparr>co_analysis_id = ''a2'', co_status = ''in_progress''\<rparr>,
      [job_waiting\<lparr>a_status := ''in_progress'', a_current_step := ''analyzing_structure'',
                    a_progress := 20, a_missing_data := [], a_updated_at := 9\<rparr>],
      Some \<lparr>t_analysisId = ''a2'', t_question = ''Can I hire?'',
            t_fileIds = [''f1''], t_providedData = Some (JObj [(''salary'', JNum 60000)])\<rparr>) \<and>
   relaunch_run \<lparr>t_analysisId = ''a2'', t_question = ''Can I hire?'', t_fileIds = [''f1''],
                  t_providedData = Some (JObj [(''salary'', JNum 60000)])\<rparr> ai_report =
     [Write relaunch_start_patch,
      CallAI \<lparr>rq_question = ''Can I hire?'', rq_file_ids = Some [''f1''], rq_files_data = None,
              rq_analysis_id = ''a2'',
              rq_provided_data = Some (JObj [(''salary'', JNum 60000)]),
              rq_update_status_url = None\<rparr>,
      Write (relaunch_done_patch (JObj [(''full_analysis_text'', JStr ''yes'')]))] \<and>
   (\<exists>uid md job t.
      Some ''u1'' = Some uid \<and> Some (Some (JObj [(''salary'', JNum 60000)])) = Some md \<and>
      job \<in> set [job_waiting] \<and> a_id job = ''a2'' \<and> a_user_id job = uid \<and>
      Some \<lparr>t_analysisId = ''a2'', t_question = ''Can I hire?'',
            t_fileIds = [''f1''], t_providedData = Some (JObj [(''salary'', JNum 60000)])\<rparr> = Some t \<and>
      (\<forall>ai. \<exists>rq rest.
              relaunch_run t ai = Write relaunch_start_patch # CallAI rq # rest \<and>
              p_progress relaunch_start_patch = Some 20 \<and>
              rq_analysis_id rq = ''a2'' \<and>
              rq_question rq = a_question job \<and>
              rq_provided_data rq = md))"
proof -
  note h = continue_waiting_example[of "JObj [(''salary'', JNum 60000)]"]
  from resume_success_effects[OF h]
  have "\<exists>uid md job t.
      Some ''u1'' = Some uid \<and> Some (Some (JObj [(''salary'', JNum 60000)])) = Some md \<and>
      job \<in> set [job_waiting] \<and> a_id job = ''a2'' \<and> a_user_id job = uid \<and>
      Some \<lparr>t_analysisId = ''a2'', t_question = ''Can I hire?'',
            t_fileIds = [''f1''], t_providedData = Some (JObj [(''salary'', JNum 60000)])\<rparr> = Some t \<and>
      (\<forall>ai. \<exists>rq rest.
              relaunch_run t ai = Write relaunch_start_patch # CallAI rq # rest \<and>
              p_progress relaunch_start_patch = Some 20 \<and>
              rq_analysis_id rq = ''a2'' \<and>
              rq_question rq = a_question job \<and>
              rq_provided_data rq = md)"
    by blast
  with h relaunch_run_report_example show ?thesis by (intro conjI)
qed

section \<open>The update-status route\<close>

lemma updateData_fields:
  "p_status (updateData b) = b_status b" "p_current_step (updateData b) = b_current_step b"
  "p_progress (updateData b) = b_progress b" "p_steps (updateData b) = b_steps b"
  "p_missing_data (updateData b) = b_missing_data b" "p_result (updateData b) = None"
  by (simp_all add: updateData_def no_patch_def)

lemma update_status_POST_cases:
  "update_status_POST now auth aid body db = (resp, db') \<Longrightarrow>
   (db' = db \<and> (resp \<noteq> Success () \<or> body = None)) \<or>
   (\<exists>uid b. auth = Some uid \<and> body = Some b \<and> resp = Success () \<and>
            update_where now (\<lambda>r. a_id r = aid \<and> a_user_id r = uid) (updateData b) db = Some db')"
  by (auto simp: update_status_POST_def split: option.splits if_splits)

lemma update_status_row:
  assumes "r' = r \<or> r' = touch now (updateData b) r"
  shows "a_id r' = a_id r \<and> a_user_id r' = a_user_id r \<and> a_project_id r' = a_project_id r \<and>
     a_question r' = a_question r \<and> a_file_ids r' = a_file_ids r \<and>
     a_partial_result r' = a_partial_result r \<and> a_result r' = a_result r \<and>
     a_created_at r' = a_created_at r \<and>
     (b_status b = None \<longrightarrow> a_status r' = a_status r) \<and>
     (b_current_step b = None \<longrightarrow> a_current_step r' = a_current_step r) \<and>
     (b_progress b = None \<longrightarrow> a_progress r' = a_progress r) \<and>
     (b_steps b = None \<longrightarrow> a_steps r' = a_steps r) \<and>
     (b_missing_data b = None \<longrightarrow> a_missing_data r' = a_missing_data r) \<and>
     (a_updated_at r' = a_updated_at r \<or> a_updated_at r' = now)"
  using assms
  by (elim disjE) (simp_all add: touch_fields apply_patch_fields updateData_fields)

lemma update_status_row_named:
  assumes "r' = touch now (updateData b) r"
  shows "(\<forall>v. b_status b = Some v \<longrightarrow> a_status r' = v) \<and>
         (\<forall>v. b_current_step b = Some v \<longrightarrow> a_current_step r' = v) \<and>
         (\<forall>v. b_progress b = Some v \<longrightarrow> a_progress r' = v) \<and>
         (\<forall>v. b_steps b = Some v \<longrightarrow> a_steps r' = v) \<and>
         (\<forall>v. b_missing_data b = Some v \<longrightarrow> a_missing_data r' = v) \<and>
         a_updated_at r' = now"
  using assms by (simp add: touch_fields apply_patch_fields updateData_fields)

lemma update_status_example:
  "update_status_POST 9 (Some ''u1'') ''a3'' (Some (progress_only 3)) [job_running] =
     (Success (), [job_running\<lparr>a_progress := 3, a_updated_at := 9\<rparr>])"
  by (simp add: update_status_POST_def update_where_def job_running_def progress_only_def
        check_ok_def updateData_def no_patch_def apply_patch_def touch_def)

text \<open>
  C9, as stated, fails for one field: \<^verbatim>\<open>updated_at\<close> is never named in the
  request body, and the trigger of the table rewrites it on the row the update
  matches. A body naming only \<^verbatim>\<open>progress\<close> leaves the job's row with another
  \<^verbatim>\<open>updated_at\<close> than before.
\<close>

theorem update_status_rewrites_updated_at_counterexample:
  "b_status (progress_only 3) = None \<and> b_current_step (progress_only 3) = None \<and>
   b_steps (progress_only 3) = None \<and> b_missing_data (progress_only 3) = None \<and>
   a_updated_at job_running = 3 \<and>
   update_status_POST 9 (Some ''u1'') ''a3'' (Some (progress_only 3)) [job_running] =
     (Success (), [job_running\<lparr>a_progress := 3, a_updated_at := 9\<rparr>]) \<and>
   a_updated_at (job_running\<lparr>a_progress := 3, a_updated_at := 9\<rparr>) \<noteq> a_updated_at job_running"
proof -
  have "b_status (progress_only 3) = None" "b_current_step (progress_only 3) = None"
       "b_steps (progress_only 3) = None" "b_missing_data (progress_only 3) = None"
    by (simp_all add: progress_only_def)
  moreover have "a_updated_at job_running = 3"
    "a_updated_at (job_running\<lparr>a_progress := 3, a_updated_at := 9\<rparr>) \<noteq> a_updated_at job_running"
    by (simp_all add: job_running_def)
  ultimately show ?thesis using update_status_example by (intro conjI)
qed

text \<open>
  C9, amended: a write through the update-status route is never a full-record
  overwrite. Whatever the reply, the table keeps its rows in place; in each row
  the id, owner, project, question, file ids, partial result, result and
  creation time are as before, so is each of status, current_step, progress,
  steps and missing_data that the body leaves out, and \<^verbatim>\<open>updated_at\<close> is as
  before or the time of the update. A row that is not the caller's row with the
  given id is unchanged altogether, and so is every row when the reply is not
  a success. On success the caller's row with the given id holds, in each named
  field, the value of the body; and, the body naming at least one of the five
  fields, its \<^verbatim>\<open>updated_at\<close> is the time of the update, set by the table's
  trigger.
\<close>

theorem update_status_overwrites_named_fields_and_updated_at_only:
  assumes "update_status_POST now auth aid (Some b) db = (resp, db')"
  shows "length db' = length db \<and>
         (\<forall>i<length db.
            a_id (db' ! i) = a_id (db ! i) \<and> a_user_id (db' ! i) = a_user_id (db ! i) \<and>
            a_project_id (db' ! i) = a_project_id (db ! i) \<and>
            a_question (db' ! i) = a_question (db ! i) \<and>
            a_file_ids (db' ! i) = a_file_ids (db ! i) \<and>
            a_partial_result (db' ! i) = a_partial_result (db ! i) \<and>
            a_result (db' ! i) = a_result (db ! i) \<and>
            a_created_at (db' ! i) = a_created_at (db ! i) \<and>
            (b_status b = None \<longrightarrow> a_status (db' ! i) = a_status (db ! i)) \<and>
            (b_current_step b = None \<longrightarrow> a_current_step (db' ! i) = a_current_step (db ! i)) \<and>
            (b_progress b = None \<longrightarrow> a_progress (db' ! i) = a_progress (db ! i)) \<and>
            (b_steps b = None \<longrightarrow> a_steps (db' ! i) = a_steps (db ! i)) \<and>
            (b_missing_data b = None \<longrightarrow> a_missing_data (db' ! i) = a_missing_data (db ! i)) \<and>
            (a_updated_at (db' ! i) = a_updated_at (db ! i) \<or> a_updated_at (db' ! i) = now))
         \<and>
         (\<forall>i<length db.
            resp \<noteq> Success () \<or> a_id (db ! i) \<noteq> aid \<or> auth \<noteq> Some (a_user_id (db ! i)) \<longrightarrow>
            db' ! i = db ! i)
         \<and>
         (\<forall>i<length db. resp = Success () \<and> a_id (db ! i) = aid \<and> auth = Some (a_user_id (db ! i)) \<longrightarrow>
            (\<forall>v. b_status b = Some v \<longrightarrow> a_status (db' ! i) = v) \<and>
            (\<forall>v. b_current_step b = Some v \<longrightarrow> a_current_step (db' ! i) = v) \<and>
            (\<forall>v. b_progress b = Some v \<longrightarrow> a_progress (db' ! i) = v) \<and>
            (\<forall>v. b_steps b = Some v \<longrightarrow> a_steps (db' ! i) = v) \<and>
            (\<forall>v. b_missing_data b = Some v \<longrightarrow> a_missing_data (db' ! i) = v) \<and>
            (updateData b \<noteq> no_patch \<longrightarrow> a_updated_at (db' ! i) = now))"
proof -
  have c: "(db' = db \<and> resp \<noteq> Success ()) \<or>
           (\<exists>uid. auth = Some uid \<and> resp = Success () \<and>
              update_where now (\<lambda>r. a_id r = aid \<and> a_user_id r = uid) (updateData b) db = Some db')"
    using update_status_POST_cases[OF assms] by auto
  have len: "length db' = length db"
    using c by (auto dest: update_where_length)
  have nth: "db' ! i = (if resp = Success () \<and> a_id (db ! i) = aid \<and> auth = Some (a_user_id (db ! i))
                        then touch now (updateData b) (db ! i) else db ! i)"
    if "i < length db" for i
    using c
  proof (elim disjE conjE exE)
    assume "db' = db" "resp \<noteq> Success ()"
    then show ?thesis by simp
  next
    fix uid assume u: "auth = Some uid" "resp = Success ()"
      "update_where now (\<lambda>r. a_id r = aid \<and> a_user_id r = uid) (updateData b) db = Some db'"
    from update_where_nth[OF u(3) that] u(1,2) show ?thesis by auto
  qed
  have frame: "\<forall>i<length db.
            a_id (db' ! i) = a_id (db ! i) \<and> a_user_id (db' ! i) = a_user_id (db ! i) \<and>
            a_project_id (db' ! i) = a_project_id (db ! i) \<and>
            a_question (db' ! i) = a_question (db ! i) \<and>
            a_file_ids (db' ! i) = a_file_ids (db ! i) \<and>
            a_partial_result (db' ! i) = a_partial_result (db ! i) \<and>
            a_result (db' ! i) = a_result (db ! i) \<and>
            a_created_at (db' ! i) = a_created_at (db ! i) \<and>
            (b_status b = None \<longrightarrow> a_status (db' ! i) = a_status (db ! i)) \<and>
            (b_current_step b = None \<longrightarrow> a_current_step (db' ! i) = a_current_step (db ! i)) \<and>
            (b_progress b = None \<longrightarrow> a_progress (db' ! i) = a_progress (db ! i)) \<and>
            (b_steps b = None \<longrightarrow> a_steps (db' ! i) = a_steps (db ! i)) \<and>
            (b_missing_data b = None \<longrightarrow> a_missing_data (db' ! i) = a_missing_data (db ! i)) \<and>
            (a_updated_at (db' ! i) = a_updated_at (db ! i) \<or> a_updated_at (db' ! i) = now)"
  proof (intro allI impI)
    fix i assume "i < length db"
    from nth[OF this] have "db' ! i = db ! i \<or> db' ! i = touch now (updateData b) (db ! i)"
      by (simp split: if_splits)
    from update_status_row[OF this] show "a_id (db' ! i) = a_id (db ! i) \<and> a_user_id (db' ! i) = a_user_id (db ! i) \<and>
            a_project_id (db' ! i) = a_project_id (db ! i) \<and>
            a_question (db' ! i) = a_question (db ! i) \<and>
            a_file_ids (db' ! i) = a_file_ids (db ! i) \<and>
            a_partial_result (db' ! i) = a_partial_result (db ! i) \<and>
            a_result (db' ! i) = a_result (db ! i) \<and>
            a_created_at (db' ! i) = a_created_at (db ! i) \<and>
            (b_status b = None \<longrightarrow> a_status (db' ! i) = a_status (db ! i)) \<and>
            (b_current_step b = None \<longrightarrow> a_current_step (db' ! i) = a_current_step (db ! i)) \<and>
            (b_progress b = None \<longrightarrow> a_progress (db' ! i) = a_progress (db ! i)) \<and>
            (b_steps b = None \<longrightarrow> a_steps (db' ! i) = a_steps (db ! i)) \<and>
            (b_missing_data b = None \<longrightarrow> a_missing_data (db' ! i) = a_missing_data (db ! i)) \<and>
            (a_updated_at (db' ! i) = a_updated_at (db ! i) \<or> a_updated_at (db' ! i) = now)" .
  qed
  have other: "\<forall>i<length db.
            resp \<noteq> Success () \<or> a_id (db ! i) \<noteq> aid \<or> auth \<noteq> Some (a_user_id (db ! i)) \<longrightarrow>
            db' ! i = db ! i"
    using nth by auto
  have over: "\<forall>i<length db. resp = Success () \<and> a_id (db ! i) = aid \<and> auth = Some (a_user_id (db ! i)) \<longrightarrow>
            (\<forall>v. b_status b = Some v \<longrightarrow> a_status (db' ! i) = v) \<and>
            (\<forall>v. b_current_step b = Some v \<longrightarrow> a_current_step (db' ! i) = v) \<and>
            (\<forall>v. b_progress b = Some v \<longrightarrow> a_progress (db' ! i) = v) \<and>
            (\<forall>v. b_steps b = Some v \<longrightarrow> a_steps (db' ! i) = v) \<and>
            (\<forall>v. b_missing_data b = Some v \<longrightarrow> a_missing_data (db' ! i) = v) \<and>
            (updateData b \<noteq> no_patch \<longrightarrow> a_updated_at (db' ! i) = now)"
  proof (intro allI impI)
    fix i assume "i < length db" and "resp = Success () \<and> a_id (db ! i) = aid \<and> auth = Some (a_user_id (db ! i))"
    then have "db' ! i = touch now (updateData b) (db ! i)" using nth by simp
    from update_status_row_named[OF this]
    show "(\<forall>v. b_status b = Some v \<longrightarrow> a_status (db' ! i) = v) \<and>
            (\<forall>v. b_current_step b = Some v \<longrightarrow> a_current_step (db' ! i) = v) \<and>
            (\<forall>v. b_progress b = Some v \<longrightarrow> a_progress (db' ! i) = v) \<and>
            (\<forall>v. b_steps b = Some v \<longrightarrow> a_steps (db' ! i) = v) \<and>
            (\<forall>v. b_missing_data b = Some v \<longrightarrow> a_missing_data (db' ! i) = v) \<and>
            (updateData b \<noteq> no_patch \<longrightarrow> a_updated_at (db' ! i) = now)" by blast
  qed
  from len frame other over show ?thesis by (intro conjI)
qed

theorem update_status_overwrites_named_fields_and_updated_at_only_witness:
  "update_status_POST 9 (Some ''u1'') ''a3'' (Some (progress_only 3)) [job_running] =
     (Success (), [job_running\<lparr>a_progress := 3, a_updated_at := 9\<rparr>]) \<and>
   a_status ([job_running\<lparr>a_progress := 3, a_updated_at := 9\<rparr>] ! 0) = a_status ([job_running] ! 0) \<and>
   a_question ([job_running\<lparr>a_progress := 3, a_updated_at := 9\<rparr>] ! 0) = a_question ([job_running] ! 0) \<and>
   a_progress ([job_running\<lparr>a_progress := 3, a_updated_at := 9\<rparr>] ! 0) = 3 \<and>
   a_updated_at ([job_running\<lparr>a_progress := 3, a_updated_at := 9\<rparr>] ! 0) = 9"
proof -
  note h = update_status_example
  have "b_status (progress_only 3) = None" "b_progress (progress_only 3) = Some 3"
       "updateData (progress_only 3) \<noteq> no_patch"
    by (simp_all add: progress_only_def updateData_def no_patch_def)
  moreover have "a_id ([job_running] ! 0) = ''a3''" "Some ''u1'' = Some (a_user_id ([job_running] ! 0))"
    by (simp_all add: job_running_def)
  ultimately show ?thesis
    using update_status_overwrites_named_fields_and_updated_at_only[OF h] h by simp
qed

section \<open>The hypothesis guard\<close>

lemma list_ex_enumerate:
  "list_ex (\<lambda>(i, x). P i x) (enumerate 0 xs) \<longleftrightarrow> (\<exists>i<length xs. P i (xs ! i))"
  by (auto simp: list_ex_iff in_set_enumerate_eq)

lemma hypothesesChanged_iff:
  "hypothesesChanged current proposed \<longleftrightarrow>
     length current \<noteq> length proposed \<or>
     (\<exists>i. i < length current \<and> i < length proposed \<and>
          (h_id (current ! i) \<noteq> h_id (proposed ! i) \<or>
           h_value (current ! i) \<noteq> h_value (proposed ! i)))"
  unfolding hypothesesChanged_def list_ex_enumerate
  by (auto simp: at_index_def split: option.splits if_splits)

lemma unchanged_no_relaunch:
  "cr_updated_hypotheses r = Some proposed \<Longrightarrow>
   \<not> hypothesesChanged (or_empty tab_hypothesis) proposed \<Longrightarrow>
   \<not> list_ex is_relaunch (handleSubmit message isLoading tab_id tab_hypothesis (ChatOk r) relaunch_ok)"
  by (auto simp: handleSubmit_def Let_def split: option.splits)

text \<open>
  C5: for every pair of chip sequences, the guard of \<^verbatim>\<open>handleSubmit\<close> reports a
  change exactly when the sequences differ in length or some index holds chips
  that differ in id or in value; and when the guard reports no change for the
  hypotheses a chat reply proposes, the submit handler issues no call to the
  continue endpoint, whatever the reply's relaunch flag says.
\<close>

theorem hypothesis_guard_decides_relaunch:
  "(hypothesesChanged current proposed \<longleftrightarrow>
      length current \<noteq> length proposed \<or>
      (\<exists>i. i < length current \<and> i < length proposed \<and>
           (h_id (current ! i) \<noteq> h_id (proposed ! i) \<or>
            h_value (current ! i) \<noteq> h_value (proposed ! i)))) \<and>
   (cr_updated_hypotheses r = Some proposed \<and>
    \<not> hypothesesChanged (or_empty tab_hypothesis) proposed \<longrightarrow>
    \<not> list_ex is_relaunch
         (handleSubmit message isLoading tab_id tab_hypothesis (ChatOk r) relaunch_ok))"
  using hypothesesChanged_iff[of current proposed]
    unchanged_no_relaunch[of r proposed tab_hypothesis message isLoading tab_id relaunch_ok]
  by blast

theorem hypothesis_guard_decides_relaunch_witness:
  "\<not> hypothesesChanged [chip_salary] [chip_salary] \<and>
   hypothesesChanged [chip_salary] [chip_salary\<lparr>h_value := VNum 65000\<rparr>] \<and>
   \<not> list_ex is_relaunch
        (handleSubmit ''And with 65000?'' False ''analysis-a1'' (Some [chip_salary])
           (ChatOk \<lparr>cr_response = Some ''Same figures.'',
                    cr_updated_hypotheses = Some [chip_salary],
                    cr_should_relaunch_analysis = True\<rparr>) True)"
proof -
  have u: "\<not> hypothesesChanged [chip_salary] [chip_salary]"
    using hypothesis_guard_decides_relaunch[of "[chip_salary]" "[chip_salary]"]
    by simp
  have c: "hypothesesChanged [chip_salary] [chip_salary\<lparr>h_value := VNum 65000\<rparr>]"
    using hypothesis_guard_decides_relaunch[of "[chip_salary]" "[chip_salary\<lparr>h_value := VNum 65000\<rparr>]"]
    by (simp add: chip_salary_def)
  have "\<not> list_ex is_relaunch
        (handleSubmit ''And with 65000?'' False ''analysis-a1'' (Some [chip_salary])
           (ChatOk \<lparr>cr_response = Some ''Same figures.'',
                    cr_updated_hypotheses = Some [chip_salary],
                    cr_should_relaunch_analysis = True\<rparr>) True)"
    using hypothesis_guard_decides_relaunch[where
            r = "\<lparr>cr_response = Some ''Same figures.'', cr_updated_hypotheses = Some [chip_salary],
                  cr_should_relaunch_analysis = True\<rparr>"
            and proposed = "[chip_salary]" and tab_hypothesis = "Some [chip_salary]"] u
    by (simp add: or_empty_def)
  with u c show ?thesis by (intro conjI)
qed

section \<open>Scoping to the caller\<close>

lemma foreign_no_match:
  assumes "distinct (map a_id db)" "job \<in> set db" "a_id job = aid" "a_user_id job \<noteq> uid"
  shows "filter (\<lambda>r. a_id r = aid \<and> a_user_id r = uid) db = []"
proof -
  have "\<not> (a_id r = aid \<and> a_user_id r = uid)" if "r \<in> set db" for r
  proof
    assume h: "a_id r = aid \<and> a_user_id r = uid"
    with assms(3) have "a_id r = a_id job" by simp
    with assms(1,2) that have "r = job" by (meson distinct_map inj_onD)
    with h assms(4) show False by simp
  qed
  then show ?thesis by (simp add: filter_empty_conv)
qed

text \<open>
  C10: the three routes a client can name a job through (status read, resume,
  external status update) filter on the caller's user id. With ids unique in the
  table (the primary key), a call naming a job that belongs to another user is
  answered 404 by the status read and by the resume, and is a no-op for the
  status update; in all three the table, and so that job's record, is unchanged,
  and the resume starts no task.
\<close>

theorem foreign_job_never_touched:
  assumes "distinct (map a_id db)" and "job \<in> set db" and "a_id job = aid" and "aid \<noteq> []"
    and "a_user_id job \<noteq> uid"
  shows "status_GET (Some uid) aid db = Error 404 ''Analysis not found or access denied'' \<and>
         continue_POST now (Some uid) aid (Some md) db =
           (Error 404 ''Analysis not found or access denied'', db, None) \<and>
         update_status_POST now (Some uid) aid (Some b) db = (Success (), db)"
proof -
  note f = foreign_no_match[OF assms(1,2,3,5)]
  then have s: "select_single (\<lambda>r. a_id r = aid \<and> a_user_id r = uid) db = None"
    by (simp add: select_single_def)
  have 1: "status_GET (Some uid) aid db = Error 404 ''Analysis not found or access denied''"
    using s assms(4) by (simp add: status_GET_def)
  have 2: "continue_POST now (Some uid) aid (Some md) db =
           (Error 404 ''Analysis not found or access denied'', db, None)"
    using continue_POST_not_found[OF assms(4) s] .
  have 3: "update_status_POST now (Some uid) aid (Some b) db = (Success (), db)"
    using assms(4) update_where_no_match[OF f] by (simp add: update_status_POST_def)
  from 1 2 3 show ?thesis by (intro conjI)
qed

theorem foreign_job_never_touched_witness:
  "distinct (map a_id [job_running, job_waiting]) \<and> job_running \<in> set [job_running, job_waiting] \<and>
   a_id job_running = ''a3'' \<and> ''a3'' \<noteq> [] \<and> a_user_id job_running \<noteq> ''u2'' \<and>
   status_GET (Some ''u2'') ''a3'' [job_running, job_waiting] = Error 404 ''Analysis not found or access denied'' \<and>
   continue_POST 9 (Some ''u2'') ''a3'' (Some None) [job_running, job_waiting] =
           (Error 404 ''Analysis not found or access denied'', [job_running, job_waiting], None) \<and>
   update_status_POST 9 (Some ''u2'') ''a3'' (Some (progress_only 3)) [job_running, job_waiting] =
           (Success (), [job_running, job_waiting])"
proof -
  have 1: "distinct (map a_id [job_running, job_waiting])" by (simp add: job_running_def job_waiting_def)
  have 2: "job_running \<in> set [job_running, job_waiting]" by simp
  have 3: "a_id job_running = ''a3''" by (simp add: job_running_def)
  have 4: "''a3'' \<noteq> []" by simp
  have 5: "a_user_id job_running \<noteq> ''u2''" by (simp add: job_running_def)
  from foreign_job_never_touched[OF 1 2 3 4 5, of 9 None "progress_only 3"] 1 2 3 4 5
  show ?thesis by (intro conjI) simp_all
qed

section \<open>The background tasks\<close>

lemma write_by_id_map:
  "check_ok p \<Longrightarrow>
   write_by_id now aid p db = map (\<lambda>r. if a_id r = aid then touch now p r else r) db"
  by (simp add: write_by_id_def update_where_def)

lemma find_map_patch:
  "find (\<lambda>r. a_id r = aid) (map (\<lambda>r. if a_id r = aid then touch now p r else r) db) =
   map_option (touch now p) (find (\<lambda>r. a_id r = aid) db)"
  by (induction db) (simp_all add: touch_fields)

lemma find_analysis_write:
  "check_ok p \<Longrightarrow>
   find_analysis aid (write_by_id now aid p db) = map_option (touch now p) (find_analysis aid db)"
  by (simp add: find_analysis_def write_by_id_map find_map_patch)

lemma trace_rows:
  "list_all check_ok ws \<Longrightarrow> find_analysis aid db = Some job \<Longrightarrow>
   List.map_filter (\<lambda>d. map_option a_progress (find_analysis aid d)) (run_writes aid clock k ws db) =
   map a_progress (row_states clock k ws job)"
proof (induction ws arbitrary: db job k)
  case Nil
  then show ?case by (simp add: map_filter_simps)
next
  case (Cons p ps)
  then have c: "check_ok p" and cs: "list_all check_ok ps" by simp_all
  have f: "find_analysis aid (write_by_id (clock k) aid p db) = Some (touch (clock k) p job)"
    using find_analysis_write[OF c, of aid "clock k" db] Cons.prems(2) by simp
  from Cons.IH[OF cs f, of "Suc k"] f show ?case by (simp add: map_filter_simps)
qed

lemma progress_trace_rows:
  "list_all check_ok ws \<Longrightarrow> find_analysis aid db = Some job \<Longrightarrow>
   progress_trace aid clock ws db = map a_progress (row_states clock 0 ws job)"
  unfolding progress_trace_def by (rule trace_rows)


lemma check_ok_patches:
  "check_ok error_patch" "check_ok relaunch_start_patch" "check_ok (relaunch_done_patch result)"
  "check_ok launch_start_patch" "check_ok checking_files_patch" "check_ok analyzing_structure_patch"
  "check_ok completed_patch" "check_ok (result_patch result)"
  by (simp_all add: check_ok_def error_patch_def relaunch_start_patch_def relaunch_done_patch_def
        launch_start_patch_def checking_files_patch_def analyzing_structure_patch_def
        completed_patch_def result_patch_def no_patch_def status_values_def)

lemma launch_writes_cases:
  "launch_writes app_url t None ai =
     [launch_start_patch, checking_files_patch, error_patch, error_patch]"
  "ai (launch_request app_url t fd) = AiOk result \<Longrightarrow>
   launch_writes app_url t (Some fd) ai =
     [launch_start_patch, checking_files_patch, analyzing_structure_patch, completed_patch,
      result_patch result]"
  "ai (launch_request app_url t fd) = AiNotOk e \<Longrightarrow>
   launch_writes app_url t (Some fd) ai =
     [launch_start_patch, checking_files_patch, analyzing_structure_patch, error_patch,
      error_patch, error_patch]"
  "ai (launch_request app_url t fd) = AiThrows \<Longrightarrow>
   launch_writes app_url t (Some fd) ai =
     [launch_start_patch, checking_files_patch, analyzing_structure_patch, error_patch, error_patch]"
  "ai (launch_request app_url t fd) = AiMalformed \<Longrightarrow>
   launch_writes app_url t (Some fd) ai =
     [launch_start_patch, checking_files_patch, analyzing_structure_patch, error_patch, error_patch]"
  by (simp_all add: launch_writes_def launch_run_def stream_catch_def stream_launchAnalysisAsync_def)

lemma relaunch_writes_cases:
  "ai (continue_request t) = AiOk result \<Longrightarrow>
   relaunch_writes t ai = [relaunch_start_patch, relaunch_done_patch result]"
  "ai (continue_request t) = AiNotOk e \<Longrightarrow>
   relaunch_writes t ai = [relaunch_start_patch, error_patch, error_patch]"
  "ai (continue_request t) = AiThrows \<Longrightarrow> relaunch_writes t ai = [relaunch_start_patch, error_patch]"
  "ai (continue_request t) = AiMalformed \<Longrightarrow> relaunch_writes t ai = [relaunch_start_patch, error_patch]"
  by (simp_all add: relaunch_writes_def relaunch_run_def continue_catch_def
        continue_launchAnalysisAsync_def)

lemma launch_writes_ok: "list_all check_ok (launch_writes app_url t filesData ai)"
proof (cases filesData)
  case None
  then show ?thesis by (simp add: launch_writes_cases check_ok_patches)
next
  case (Some fd)
  then show ?thesis
    by (cases "ai (launch_request app_url t fd)") (simp_all add: launch_writes_cases check_ok_patches)
qed

lemma relaunch_writes_ok: "list_all check_ok (relaunch_writes t ai)"
  by (cases "ai (continue_request t)") (simp_all add: relaunch_writes_cases check_ok_patches)

lemma patch_progress:
  "a_progress (touch now error_patch r) = 0"
  "a_progress (touch now relaunch_start_patch r) = 20"
  "a_progress (touch now (relaunch_done_patch result) r) = 100"
  "a_progress (touch now launch_start_patch r) = 5"
  "a_progress (touch now checking_files_patch r) = 10"
  "a_progress (touch now analyzing_structure_patch r) = 20"
  "a_progress (touch now completed_patch r) = 100"
  "a_progress (touch now (result_patch result) r) = a_progress r"
  by (simp_all add: touch_fields apply_patch_fields error_patch_def relaunch_start_patch_def
        relaunch_done_patch_def launch_start_patch_def checking_files_patch_def
        analyzing_structure_patch_def completed_patch_def result_patch_def no_patch_def)



lemma patch_is_error:
  "is_error_write error_patch" "\<not> is_error_write relaunch_start_patch"
  "\<not> is_error_write (relaunch_done_patch result)"
  "\<not> is_error_write launch_start_patch" "\<not> is_error_write checking_files_patch"
  "\<not> is_error_write analyzing_structure_patch"
  "\<not> is_error_write completed_patch" "\<not> is_error_write (result_patch result)"
  by (simp_all add: is_error_write_def error_patch_def relaunch_start_patch_def relaunch_done_patch_def
        launch_start_patch_def checking_files_patch_def analyzing_structure_patch_def
        completed_patch_def result_patch_def no_patch_def)

lemma list_all_takeWhile: "list_all P xs \<Longrightarrow> list_all P (takeWhile Q xs)"
  by (induction xs) simp_all

lemma launch_progress_sorted:
  assumes "a_progress job = 0"
  shows "sorted (a_progress job #
           map a_progress (row_states clock k
              (takeWhile (\<lambda>p. \<not> is_error_write p) (launch_writes app_url t filesData ai)) job))"
proof (cases filesData)
  case None
  then show ?thesis using assms by (simp add: launch_writes_cases patch_is_error patch_progress)
next
  case (Some fd)
  then show ?thesis using assms
    by (cases "ai (launch_request app_url t fd)")
       (simp_all add: launch_writes_cases patch_is_error patch_progress)
qed

lemma relaunch_progress_sorted:
  assumes "a_progress job = 20"
  shows "sorted (a_progress job #
           map a_progress (row_states clock k
              (takeWhile (\<lambda>p. \<not> is_error_write p) (relaunch_writes t ai)) job))"
  using assms
  by (cases "ai (continue_request t)")
     (simp_all add: relaunch_writes_cases patch_is_error patch_progress)






lemma find_job_created: "find_analysis ''a4'' [job_created] = Some job_created"
  by (simp add: find_analysis_def job_created_def new_analysis_def)

lemma progress_job_created: "a_progress job_created = 0"
  by (simp add: job_created_def new_analysis_def)


lemma trace_created_not_ok:
  "progress_trace ''a4'' sample_clock
     (launch_writes ''http://localhost:3000'' sample_launch (Some []) ai_not_ok) [job_created] =
   [5, 10, 20, 0, 0, 0]"
  unfolding progress_trace_rows[OF launch_writes_ok find_job_created]
  by (simp add: launch_writes_cases patch_progress)





text \<open>
  C4, as stated, fails twice. A write through the update-status route stores
  the progress of its body without looking at the stored one: on a job in
  progress at 20, a body with progress 3 is accepted and leaves 3. And the
  writes by which a task records a failure, issued while the job is in
  progress, take the progress from 20 to 0.
\<close>

theorem progress_decreases_counterexample:
  "a_status job_running = ''in_progress'' \<and> a_progress job_running = 20 \<and>
   update_status_POST 9 (Some ''u1'') ''a3'' (Some (progress_only 3)) [job_running] =
     (Success (), [job_running\<lparr>a_progress := 3, a_updated_at := 9\<rparr>]) \<and>
   a_progress (job_running\<lparr>a_progress := 3, a_updated_at := 9\<rparr>) < a_progress job_running \<and>
   progress_trace ''a4'' sample_clock
     (launch_writes ''http://localhost:3000'' sample_launch (Some []) ai_not_ok) [job_created] =
     [5, 10, 20, 0, 0, 0]"
proof -
  have "a_status job_running = ''in_progress''" "a_progress job_running = 20"
     "a_progress (job_running\<lparr>a_progress := 3, a_updated_at := 9\<rparr>) < a_progress job_running"
    by (simp_all add: job_running_def)
  with update_status_example trace_created_not_ok show ?thesis by (intro conjI)
qed

text \<open>
  C4, amended: along the writes that the task of a launch or of a resume issues
  itself, with no other writer in between, the stored progress never decreases
  from the value at creation (0), respectively from the value the resume resets
  it to (20), up to and including the write of completion. Excepted, besides
  the reset by resume: the writes that record a failure, and writes through the
  update-status route.
\<close>

theorem task_progress_nondecreasing_until_error:
  assumes "find_analysis aid db = Some job"
  shows "(a_progress job = 0 \<longrightarrow>
            sorted (a_progress job #
                    progress_trace aid clock
                      (takeWhile (\<lambda>p. \<not> is_error_write p) (launch_writes app_url l filesData ai)) db)) \<and>
         (a_progress job = 20 \<longrightarrow>
            sorted (a_progress job #
                    progress_trace aid clock
                      (takeWhile (\<lambda>p. \<not> is_error_write p) (relaunch_writes t ai)) db))"
proof (intro conjI impI)
  assume "a_progress job = 0"
  from launch_progress_sorted[OF this]
  show "sorted (a_progress job #
                    progress_trace aid clock
                      (takeWhile (\<lambda>p. \<not> is_error_write p) (launch_writes app_url l filesData ai)) db)"
    unfolding progress_trace_rows[OF list_all_takeWhile[OF launch_writes_ok] assms] .
next
  assume "a_progress job = 20"
  from relaunch_progress_sorted[OF this]
  show "sorted (a_progress job #
                    progress_trace aid clock
                      (takeWhile (\<lambda>p. \<not> is_error_write p) (relaunch_writes t ai)) db)"
    unfolding progress_trace_rows[OF list_all_takeWhile[OF relaunch_writes_ok] assms] .
qed

lemma trace_created_ok:
  "progress_trace ''a4'' sample_clock
     (launch_writes ''http://localhost:3000'' sample_launch (Some []) ai_report) [job_created] =
   [5, 10, 20, 100, 100]"
  unfolding progress_trace_rows[OF launch_writes_ok find_job_created]
  by (simp add: launch_writes_cases(2)[of ai_report _ _ _ "JObj [(''full_analysis_text'', JStr ''yes'')]"]
        patch_progress)

lemma takeWhile_ok:
  "takeWhile (\<lambda>p. \<not> is_error_write p)
     (launch_writes ''http://localhost:3000'' sample_launch (Some []) ai_report) =
   launch_writes ''http://localhost:3000'' sample_launch (Some []) ai_report"
  by (simp add: launch_writes_cases(2)[of ai_report _ _ _ "JObj [(''full_analysis_text'', JStr ''yes'')]"]
        patch_is_error)

theorem task_progress_nondecreasing_until_error_witness:
  "find_analysis ''a4'' [job_created] = Some job_created \<and> a_progress job_created = 0 \<and>
   progress_trace ''a4'' sample_clock
     (launch_writes ''http://localhost:3000'' sample_launch (Some []) ai_report) [job_created] =
     [5, 10, 20, 100, 100] \<and>
   sorted (a_progress job_created #
           progress_trace ''a4'' sample_clock
             (takeWhile (\<lambda>p. \<not> is_error_write p)
                (launch_writes ''http://localhost:3000'' sample_launch (Some []) ai_report))
             [job_created])"
proof -
  from task_progress_nondecreasing_until_error[OF find_job_created,
         of sample_clock "''http://localhost:3000''" sample_launch "Some []" ai_report]
    progress_job_created
  have "sorted (a_progress job_created #
           progress_trace ''a4'' sample_clock
             (takeWhile (\<lambda>p. \<not> is_error_write p)
                (launch_writes ''http://localhost:3000'' sample_launch (Some []) ai_report))
             [job_created])"
    by blast
  with find_job_created progress_job_created trace_created_ok show ?thesis by (intro conjI)
qed

section \<open>The stream route\<close>

lemma stream_POST_rejects_keep:
  assumes "stream_POST auth body new_id now db = (resp, db', task)" and "\<forall>ok. resp \<noteq> Success ok"
  shows "db' = db \<and> task = None"
  using assms
  by (auto simp: stream_POST_def split: option.splits json.splits if_splits)

lemma stream_POST_bad_question:
  assumes "sb_question b = None \<or> sb_question b = Some JNull \<or> sb_question b = Some (JStr [])"
  shows "stream_POST (Some uid) (Some b) new_id now db = (Error 400 ''Question is required'', db, None)"
  using assms
  by (auto simp: stream_POST_def)

lemma stream_POST_bad_project:
  assumes "sb_question b = Some (JStr q)" "q \<noteq> []" "sb_project_id b = None \<or> sb_project_id b = Some []"
  shows "stream_POST (Some uid) (Some b) new_id now db = (Error 400 ''Project ID is required'', db, None)"
  using assms
  by (auto simp: stream_POST_def split: option.splits)

lemma stream_POST_not_owned:
  assumes "sb_question b = Some (JStr q)" "q \<noteq> []" "sb_project_id b = Some pid" "pid \<noteq> []"
    and "\<not> project_owned pid uid (projects db) \<or> \<not> files_owned (sb_file_ids b) uid pid (files db)"
  shows "\<exists>m. stream_POST (Some uid) (Some b) new_id now db = (Error 403 m, db, None)"
  using assms
  by (auto simp: stream_POST_def)

lemma new_analysis_pending:
  "a_status (new_analysis new_id now uid pid q fids) = ''pending'' \<and>
   a_progress (new_analysis new_id now uid pid q fids) = 0 \<and>
   a_id (new_analysis new_id now uid pid q fids) = new_id"
  by (simp add: new_analysis_def)

lemma stream_POST_created:
  assumes "sb_question b = Some (JStr q)" "q \<noteq> []" "sb_project_id b = Some pid" "pid \<noteq> []"
    and "project_owned pid uid (projects db)" "files_owned (sb_file_ids b) uid pid (files db)"
    and "new_id \<notin> set (map a_id (analyses db))"
  shows "stream_POST (Some uid) (Some b) new_id now db =
           (Success \<lparr>so_analysis_id = new_id, so_status = ''pending'',
                     so_current_step = ''analyzing_question'', so_progress = 0,
                     so_steps = initialSteps\<rparr>,
            db\<lparr>analyses := analyses db @ [new_analysis new_id now uid pid q (sb_file_ids b)]\<rparr>,
            Some \<lparr>l_analysisId = new_id, l_question = q, l_fileIds = or_empty (sb_file_ids b)\<rparr>)"
  using assms
  by (simp add: stream_POST_def insert_analysis_def new_analysis_pending)

text \<open>
  C7, amended: every launch request that is not answered with success leaves
  the tables as they are and starts no task. For a signed-in caller whose body
  parses: a missing, null or empty question is rejected with 400, and so is,
  for a non-empty question, a missing or empty project id; for a valid question
  and project id, a project that is not the caller's, or a listed file that is
  not the caller's in that project, is rejected with 403; otherwise, the store
  accepting the new id, a record with status \<^verbatim>\<open>pending\<close> and progress 0 is
  appended and the reply carries the new job id, together with the task to run.
  The handler's result does not depend on the AI service: it has no outcome of
  the service among its arguments, and the table it returns holds the record as
  created.
\<close>

theorem launch_validates_then_creates_pending_record:
  assumes "stream_POST (Some uid) (Some b) new_id now db = (resp, db', task)"
  shows "(\<forall>auth' body'.
            (\<forall>ok. fst (stream_POST auth' body' new_id now db) \<noteq> Success ok) \<longrightarrow>
            snd (stream_POST auth' body' new_id now db) = (db, None)) \<and>
         (sb_question b = None \<or> sb_question b = Some JNull \<or> sb_question b = Some (JStr []) \<longrightarrow>
            resp = Error 400 ''Question is required'') \<and>
         (\<forall>q. sb_question b = Some (JStr q) \<and> q \<noteq> [] \<and>
              (sb_project_id b = None \<or> sb_project_id b = Some []) \<longrightarrow>
            resp = Error 400 ''Project ID is required'') \<and>
         (\<forall>q pid. sb_question b = Some (JStr q) \<and> q \<noteq> [] \<and> sb_project_id b = Some pid \<and> pid \<noteq> [] \<and>
              (\<not> project_owned pid uid (projects db) \<or>
               \<not> files_owned (sb_file_ids b) uid pid (files db)) \<longrightarrow>
            (\<exists>m. resp = Error 403 m)) \<and>
         (\<forall>q pid. sb_question b = Some (JStr q) \<and> q \<noteq> [] \<and> sb_project_id b = Some pid \<and> pid \<noteq> [] \<and>
              project_owned pid uid (projects db) \<and>
              files_owned (sb_file_ids b) uid pid (files db) \<and>
              new_id \<notin> set (map a_id (analyses db)) \<longrightarrow>
            resp = Success \<lparr>so_analysis_id = new_id, so_status = ''pending'',
                             so_current_step = ''analyzing_question'', so_progress = 0,
                             so_steps = initialSteps\<rparr> \<and>
            db' = db\<lparr>analyses := analyses db @ [new_analysis new_id now uid pid q (sb_file_ids b)]\<rparr> \<and>
            a_status (new_analysis new_id now uid pid q (sb_file_ids b)) = ''pending'' \<and>
            a_progress (new_analysis new_id now uid pid q (sb_file_ids b)) = 0 \<and>
            task = Some \<lparr>l_analysisId = new_id, l_question = q,
                          l_fileIds = or_empty (sb_file_ids b)\<rparr>)"
proof (intro conjI allI impI)
  fix auth' body' assume "\<forall>ok. fst (stream_POST auth' body' new_id now db) \<noteq> Success ok"
  then show "snd (stream_POST auth' body' new_id now db) = (db, None)"
    using stream_POST_rejects_keep[of auth' body' new_id now db] by (metis prod.collapse)
next
  assume "sb_question b = None \<or> sb_question b = Some JNull \<or> sb_question b = Some (JStr [])"
  from stream_POST_bad_question[OF this, of uid new_id now db] assms
  show "resp = Error 400 ''Question is required''" by simp
next
  fix q assume "sb_question b = Some (JStr q) \<and> q \<noteq> [] \<and>
              (sb_project_id b = None \<or> sb_project_id b = Some [])"
  then have "stream_POST (Some uid) (Some b) new_id now db = (Error 400 ''Project ID is required'', db, None)"
    using stream_POST_bad_project by blast
  with assms show "resp = Error 400 ''Project ID is required''" by simp
next
  fix q pid assume "sb_question b = Some (JStr q) \<and> q \<noteq> [] \<and> sb_project_id b = Some pid \<and> pid \<noteq> [] \<and>
              (\<not> project_owned pid uid (projects db) \<or>
               \<not> files_owned (sb_file_ids b) uid pid (files db))"
  then have "\<exists>m. stream_POST (Some uid) (Some b) new_id now db = (Error 403 m, db, None)"
    using stream_POST_not_owned by blast
  with assms show "\<exists>m. resp = Error 403 m" by auto
next
  fix q pid assume h: "sb_question b = Some (JStr q) \<and> q \<noteq> [] \<and> sb_project_id b = Some pid \<and> pid \<noteq> [] \<and>
              project_owned pid uid (projects db) \<and>
              files_owned (sb_file_ids b) uid pid (files db) \<and>
              new_id \<notin> set (map a_id (analyses db))"
  then have c: "stream_POST (Some uid) (Some b) new_id now db =
           (Success \<lparr>so_analysis_id = new_id, so_status = ''pending'',
                     so_current_step = ''analyzing_question'', so_progress = 0,
                     so_steps = initialSteps\<rparr>,
            db\<lparr>analyses := analyses db @ [new_analysis new_id now uid pid q (sb_file_ids b)]\<rparr>,
            Some \<lparr>l_analysisId = new_id, l_question = q, l_fileIds = or_empty (sb_file_ids b)\<rparr>)"
    using stream_POST_created by blast
  from c assms show "resp = Success \<lparr>so_analysis_id = new_id, so_status = ''pending'',
                             so_current_step = ''analyzing_question'', so_progress = 0,
                             so_steps = initialSteps\<rparr>" by simp
  from c assms show "db' = db\<lparr>analyses := analyses db @ [new_analysis new_id now uid pid q (sb_file_ids b)]\<rparr>" by simp
  from c assms show "task = Some \<lparr>l_analysisId = new_id, l_question = q,
                          l_fileIds = or_empty (sb_file_ids b)\<rparr>" by simp
  show "a_status (new_analysis new_id now uid pid q (sb_file_ids b)) = ''pending''"
       "a_progress (new_analysis new_id now uid pid q (sb_file_ids b)) = 0"
    by (simp_all add: new_analysis_pending)
qed

lemma launch_foreign_example:
  "stream_POST (Some ''u1'') (Some body_foreign_project) ''a9'' 9 sample_db =
     (Error 403 ''Project not found or access denied'', sample_db, None)"
  by (simp add: stream_POST_def body_foreign_project_def sample_db_def project_owned_def)

lemma launch_own_example:
  "stream_POST (Some ''u1'') (Some body_own_project) ''a9'' 9 sample_db =
     (Success \<lparr>so_analysis_id = ''a9'', so_status = ''pending'',
               so_current_step = ''analyzing_question'', so_progress = 0,
               so_steps = initialSteps\<rparr>,
      sample_db\<lparr>analyses := [job_completed,
                   new_analysis ''a9'' 9 ''u1'' ''p1'' ''Can I hire at 60000?'' (Some [''f1''])]\<rparr>,
      Some \<lparr>l_analysisId = ''a9'', l_question = ''Can I hire at 60000?'', l_fileIds = [''f1'']\<rparr>)"
  by (simp add: stream_POST_def body_own_project_def sample_db_def project_owned_def files_owned_def
        insert_analysis_def job_completed_def or_empty_def new_analysis_pending)

lemma launch_foreign_file_example:
  "stream_POST (Some ''u1'') (Some body_foreign_file) ''a9'' 9 sample_db =
     (Error 403 ''Some files not found, access denied, or files belong to different project'',
      sample_db, None)"
  by (simp add: stream_POST_def body_foreign_file_def sample_db_def project_owned_def files_owned_def)

lemma launch_unauthenticated_example:
  "stream_POST None (Some body_own_project) ''a9'' 9 sample_db = (AuthResponse, sample_db, None)"
  by (simp add: stream_POST_def)

text \<open>
  C7, as stated, fails in its second half: a non-empty question and a present
  project id do not suffice for a record to be created. A request naming a
  project of another user, or a file that is not the caller's in the project, is
  answered 403, and a request of nobody signed in gets the reply of
  \<^verbatim>\<open>requireAuth\<close>; in each case no record is created and no task is started.
\<close>

theorem launch_rejected_after_validation_counterexample:
  "sb_question body_foreign_project = Some (JStr ''Can I hire at 60000?'') \<and>
   sb_project_id body_foreign_project = Some ''p2'' \<and>
   stream_POST (Some ''u1'') (Some body_foreign_project) ''a9'' 9 sample_db =
     (Error 403 ''Project not found or access denied'', sample_db, None) \<and>
   sb_question body_foreign_file = Some (JStr ''Can I hire at 60000?'') \<and>
   sb_project_id body_foreign_file = Some ''p1'' \<and>
   stream_POST (Some ''u1'') (Some body_foreign_file) ''a9'' 9 sample_db =
     (Error 403 ''Some files not found, access denied, or files belong to different project'',
      sample_db, None) \<and>
   stream_POST None (Some body_own_project) ''a9'' 9 sample_db = (AuthResponse, sample_db, None)"
proof -
  have "sb_question body_foreign_project = Some (JStr ''Can I hire at 60000?'')"
       "sb_project_id body_foreign_project = Some ''p2''"
    by (simp_all add: body_foreign_project_def)
  moreover have "sb_question body_foreign_file = Some (JStr ''Can I hire at 60000?'')"
       "sb_project_id body_foreign_file = Some ''p1''"
    by (simp_all add: body_foreign_file_def)
  ultimately show ?thesis
    using launch_foreign_example launch_foreign_file_example launch_unauthenticated_example
    by (intro conjI)
qed

theorem launch_validates_then_creates_pending_record_witness:
  "stream_POST (Some ''u1'') (Some body_own_project) ''a9'' 9 sample_db =
     (Success \<lparr>so_analysis_id = ''a9'', so_status = ''pending'',
               so_current_step = ''analyzing_question'', so_progress = 0,
               so_steps = initialSteps\<rparr>,
      sample_db\<lparr>analyses := [job_completed,
                   new_analysis ''a9'' 9 ''u1'' ''p1'' ''Can I hire at 60000?'' (Some [''f1''])]\<rparr>,
      Some \<lparr>l_analysisId = ''a9'', l_question = ''Can I hire at 60000?'', l_fileIds = [''f1'']\<rparr>) \<and>
   a_status (new_analysis ''a9'' 9 ''u1'' ''p1'' ''Can I hire at 60000?'' (sb_file_ids body_own_project)) = ''pending'' \<and>
   a_progress (new_analysis ''a9'' 9 ''u1'' ''p1'' ''Can I hire at 60000?'' (sb_file_ids body_own_project)) = 0"
proof -
  have q: "sb_question body_own_project = Some (JStr ''Can I hire at 60000?'') \<and> ''Can I hire at 60000?'' \<noteq> [] \<and>
           sb_project_id body_own_project = Some ''p1'' \<and> ''p1'' \<noteq> [] \<and>
           project_owned ''p1'' ''u1'' (projects sample_db) \<and>
           files_owned (sb_file_ids body_own_project) ''u1'' ''p1'' (files sample_db) \<and>
           ''a9'' \<notin> set (map a_id (analyses sample_db))"
    by (simp add: body_own_project_def sample_db_def project_owned_def files_owned_def job_completed_def)
  from launch_validates_then_creates_pending_record[OF launch_own_example] q
  have "a_status (new_analysis ''a9'' 9 ''u1'' ''p1'' ''Can I hire at 60000?'' (sb_file_ids body_own_project)) = ''pending'' \<and>
        a_progress (new_analysis ''a9'' 9 ''u1'' ''p1'' ''Can I hire at 60000?'' (sb_file_ids body_own_project)) = 0"
    by blast
  with launch_own_example show ?thesis by (intro conjI) simp_all
qed

section \<open>The tab lifecycle\<close>

lemma starts_with_analysis: "starts_with (tab_id_of x) ''analysis-''"
  by (simp add: starts_with_def tab_id_of_def)

lemma not_decision: "\<not> starts_with (tab_id_of x) ''decision-''"
  by (simp add: starts_with_def tab_id_of_def)

lemma replace_first_analysis: "replace_first ''analysis-'' (tab_id_of x) = x"
  by (simp add: tab_id_of_def)

lemma tab_id_of_inj: "tab_id_of x = tab_id_of y \<longleftrightarrow> x = y"
  by (simp add: tab_id_of_def)

lemma dedupe_ids_gen:
  "set (map dt_id (foldl (\<lambda>acc tab. if list_ex (\<lambda>t. dt_id t = dt_id tab) acc then acc else acc @ [tab]) acc xs))
     = set (map dt_id acc) \<union> set (map dt_id xs)"
proof (induction xs arbitrary: acc)
  case Nil
  then show ?case by simp
next
  case (Cons x xs)
  show ?case unfolding foldl_Cons Cons.IH by (auto simp: list_ex_iff intro: rev_image_eqI)
qed

lemma dedupe_ids: "set (map dt_id (dedupe_tabs xs)) = set (map dt_id xs)"
  unfolding dedupe_tabs_def dedupe_ids_gen by simp

lemma set_select_analyses:
  "set (select_analyses uid pid db) = {r \<in> set db. a_user_id r = uid \<and> a_project_id r = pid}"
  by (auto simp: select_analyses_def)

lemma loadAnalyses_listing:
  assumes "ts_user s = Some uid" "ts_activeProjectId s = Some pid" "pid \<noteq> []"
  shows "\<exists>temp. (\<forall>t \<in> set temp. starts_with (dt_id t) ''decision-'') \<and>
           ts_decisionTabs (loadAnalyses lp s db) =
             dedupe_tabs (temp @ map tab_of_analysis
                (filter (\<lambda>a. tab_id_of (a_id a) \<notin> stored_closed (ts_localStorage s) pid)
                        (select_analyses uid pid db)))"
proof (cases "lp \<noteq> None \<and> lp \<noteq> Some pid")
  case True
  then have "ts_decisionTabs (loadAnalyses lp s db) =
             dedupe_tabs ([] @ map tab_of_analysis
                (filter (\<lambda>a. tab_id_of (a_id a) \<notin> stored_closed (ts_localStorage s) pid)
                        (select_analyses uid pid db)))"
    using assms by (simp add: loadAnalyses_def Let_def)
  then show ?thesis by (intro exI[of _ "[]"]) simp
next
  case False
  let ?tabs = "map tab_of_analysis
                (filter (\<lambda>a. tab_id_of (a_id a) \<notin> stored_closed (ts_localStorage s) pid)
                        (select_analyses uid pid db))"
  let ?temp = "filter (\<lambda>t. starts_with (dt_id t) ''decision-'' \<and> dt_id t \<notin> set (map dt_id ?tabs))
                 (ts_decisionTabs s)"
  from False have "ts_decisionTabs (loadAnalyses lp s db) = dedupe_tabs (?temp @ ?tabs)"
    using assms by (auto simp: loadAnalyses_def Let_def)
  moreover have "\<forall>t \<in> set ?temp. starts_with (dt_id t) ''decision-''" by simp
  ultimately show ?thesis by blast
qed

lemma loadAnalyses_has:
  assumes "ts_user s = Some uid" "ts_activeProjectId s = Some pid" "pid \<noteq> []"
    and "r \<in> set db" "a_user_id r = uid" "a_project_id r = pid"
    and "tab_id_of (a_id r) \<notin> stored_closed (ts_localStorage s) pid"
  shows "tab_id_of (a_id r) \<in> set (map dt_id (ts_decisionTabs (loadAnalyses lp s db)))"
proof -
  from loadAnalyses_listing[OF assms(1-3), where db = db and lp = lp] obtain temp where
    l: "ts_decisionTabs (loadAnalyses lp s db) =
             dedupe_tabs (temp @ map tab_of_analysis
                (filter (\<lambda>a. tab_id_of (a_id a) \<notin> stored_closed (ts_localStorage s) pid)
                        (select_analyses uid pid db)))" by blast
  from assms(4-7) have "r \<in> set (filter (\<lambda>a. tab_id_of (a_id a) \<notin> stored_closed (ts_localStorage s) pid)
                        (select_analyses uid pid db))"
    by (simp add: set_select_analyses)
  then have "dt_id (tab_of_analysis r) \<in> set (map dt_id (map tab_of_analysis
                (filter (\<lambda>a. tab_id_of (a_id a) \<notin> stored_closed (ts_localStorage s) pid)
                        (select_analyses uid pid db))))"
    unfolding map_map set_map comp_def by (rule imageI)
  then show ?thesis unfolding l dedupe_ids by (simp add: tab_of_analysis_def)
qed

lemma loadAnalyses_closed_out:
  assumes "ts_user s = Some uid" "ts_activeProjectId s = Some pid" "pid \<noteq> []"
    and "tab_id_of x \<in> stored_closed (ts_localStorage s) pid"
  shows "tab_id_of x \<notin> set (map dt_id (ts_decisionTabs (loadAnalyses lp s db)))"
proof
  assume a: "tab_id_of x \<in> set (map dt_id (ts_decisionTabs (loadAnalyses lp s db)))"
  from loadAnalyses_listing[OF assms(1-3), where db = db and lp = lp] obtain temp where
    t: "\<forall>t \<in> set temp. starts_with (dt_id t) ''decision-''" and
    l: "ts_decisionTabs (loadAnalyses lp s db) =
             dedupe_tabs (temp @ map tab_of_analysis
                (filter (\<lambda>a. tab_id_of (a_id a) \<notin> stored_closed (ts_localStorage s) pid)
                        (select_analyses uid pid db)))" by blast
  from a have "tab_id_of x \<in> set (map dt_id temp) \<or>
               tab_id_of x \<in> set (map dt_id (map tab_of_analysis
                (filter (\<lambda>a. tab_id_of (a_id a) \<notin> stored_closed (ts_localStorage s) pid)
                        (select_analyses uid pid db))))"
    unfolding l dedupe_ids by simp
  then show False
  proof
    assume "tab_id_of x \<in> set (map dt_id temp)"
    then obtain t' where "t' \<in> set temp" "dt_id t' = tab_id_of x" by auto
    with t have "starts_with (tab_id_of x) ''decision-''" by force
    with not_decision show False by blast
  next
    assume "tab_id_of x \<in> set (map dt_id (map tab_of_analysis
                (filter (\<lambda>a. tab_id_of (a_id a) \<notin> stored_closed (ts_localStorage s) pid)
                        (select_analyses uid pid db))))"
    then have "\<exists>r::analysis. tab_id_of (a_id r) \<notin> stored_closed (ts_localStorage s) pid \<and>
        tab_id_of x = tab_id_of (a_id r)"
      by (auto simp: tab_of_analysis_def)
    then obtain r :: analysis where "tab_id_of (a_id r) \<notin> stored_closed (ts_localStorage s) pid"
        "tab_id_of x = tab_id_of (a_id r)"
      by blast
    with assms(4) show False by simp
  qed
qed

lemma filter_own:
  "distinct (map a_id (db::analysis list)) \<Longrightarrow> job \<in> set db \<Longrightarrow>
   filter (\<lambda>r. a_id r = a_id job \<and> a_user_id r = a_user_id job) db = [job]"
proof (induction db)
  case Nil
  then show ?case by simp
next
  case (Cons r db)
  show ?case
  proof (cases "r = job")
    case True
    with Cons.prems(1) have "a_id job \<notin> a_id ` set db" by simp
    then have "\<And>r'. r' \<in> set db \<Longrightarrow> a_id r' \<noteq> a_id job" by (metis imageI)
    then have "filter (\<lambda>r. a_id r = a_id job \<and> a_user_id r = a_user_id job) db = []"
      by (simp add: filter_empty_conv)
    with True show ?thesis by simp
  next
    case False
    with Cons.prems have j: "job \<in> set db" and d: "distinct (map a_id db)" by auto
    from Cons.prems(1) j have "a_id r \<noteq> a_id job" by auto
    with Cons.IH[OF d j] show ?thesis by simp
  qed
qed

lemma delete_own:
  assumes "distinct (map a_id (db::analysis list))" "job \<in> set db"
  shows "a_id job \<notin> set (map a_id (delete_where (\<lambda>r. a_id r = a_id job \<and> a_user_id r = a_user_id job) db))"
proof
  assume "a_id job \<in> set (map a_id (delete_where (\<lambda>r. a_id r = a_id job \<and> a_user_id r = a_user_id job) db))"
  then obtain r where r: "r \<in> set db" "a_id r = a_id job" "\<not> (a_id r = a_id job \<and> a_user_id r = a_user_id job)"
    by (auto simp: delete_where_def)
  with assms have "r = job" by (meson distinct_map inj_onD)
  with r show False by simp
qed

lemma status_GET_own:
  assumes "distinct (map a_id db)" "job \<in> set db" "a_id job \<noteq> []"
  shows "status_GET (Some (a_user_id job)) (a_id job) db = Success (format_status job)"
  using assms(3) filter_own[OF assms(1,2)] by (simp add: status_GET_def select_single_def)

lemma status_GET_gone:
  assumes "aid \<notin> set (map a_id db)" "aid \<noteq> []"
  shows "status_GET (Some uid) aid db = Error 404 ''Analysis not found or access denied''"
proof -
  from assms(1) have "filter (\<lambda>r. a_id r = aid \<and> a_user_id r = uid) db = []"
    by (auto simp: filter_empty_conv)
  with assms(2) show ?thesis by (simp add: status_GET_def select_single_def)
qed

lemma closeTab_facts:
  assumes "ts_activeProjectId s = Some pid" "pid \<noteq> []"
  shows "ts_user (closeTab (tab_id_of x) s) = ts_user s"
    "ts_activeProjectId (closeTab (tab_id_of x) s) = Some pid"
    "ts_closedTabs (closeTab (tab_id_of x) s) = insert (tab_id_of x) (ts_closedTabs s)"
    "stored_closed (ts_localStorage (closeTab (tab_id_of x) s)) pid = insert (tab_id_of x) (ts_closedTabs s)"
  using assms
  by (simp_all add: closeTab_def Let_def set_closed_def starts_with_analysis stored_closed_def)

lemma closeTab_removes:
  "tabId \<notin> set (map dt_id (ts_decisionTabs (closeTab tabId s)))"
  by (auto simp: closeTab_def Let_def)

lemma reopenTab_eq:
  assumes "ts_activeProjectId s = Some pid" "pid \<noteq> []"
  shows "reopenTab lp tabId s db =
         loadAnalyses lp ((set_closed pid (ts_closedTabs s - {tabId}) s)\<lparr>ts_activeTabId := tabId\<rparr>) db"
  using assms by (simp add: reopenTab_def Let_def)

lemma loadAnalyses_keeps:
  "ts_closedTabs (loadAnalyses lp s db) = ts_closedTabs s"
  "ts_localStorage (loadAnalyses lp s db) = ts_localStorage s"
  by (auto simp: loadAnalyses_def Let_def split: option.splits)

lemma permanentlyDeleteTab_eq:
  assumes "ts_user s = Some uid" "ts_activeProjectId s = Some pid" "pid \<noteq> []" "x \<noteq> []"
  shows "permanentlyDeleteTab (tab_id_of x) s db =
          (set_closed pid (ts_closedTabs s - {tab_id_of x}) s,
           delete_where (\<lambda>r. a_id r = x \<and> a_user_id r = uid) db)"
  using assms by (simp add: permanentlyDeleteTab_def Let_def replace_first_analysis)

text \<open>
  C8: for every job of the signed-in user in the active project (ids unique in
  the table). Closing its tab takes the tab out of the listing, and a reload of
  the listing keeps it out, while the id joins the closed set and the record is
  still served by the status route (closing issues no call to the store).
  Reopening takes the id out of the closed set, in the provider's state and in
  local storage, and the reloaded listing holds the tab, also right after a
  close; this for every value of \<open>lastProjectId\<close> that the reloading callback
  may have captured. Permanent deletion removes the record, so that the status route
  answers 404, and takes the id out of the closed set, in the state and in
  local storage: the closed set of the project does not name the deleted
  record.
\<close>

theorem tab_close_reopen_delete:
  assumes "ts_user s = Some uid" and "ts_activeProjectId s = Some pid" and "pid \<noteq> []"
    and "distinct (map a_id db)" and "job \<in> set db" and "a_id job \<noteq> []"
    and "a_user_id job = uid" and "a_project_id job = pid"
  shows "tab_id_of (a_id job) \<notin> set (map dt_id (ts_decisionTabs (closeTab (tab_id_of (a_id job)) s))) \<and>
         tab_id_of (a_id job) \<notin>
           set (map dt_id (ts_decisionTabs (loadAnalyses lp_reload (closeTab (tab_id_of (a_id job)) s) db))) \<and>
         tab_id_of (a_id job) \<in> ts_closedTabs (closeTab (tab_id_of (a_id job)) s) \<and>
         status_GET (Some uid) (a_id job) db = Success (format_status job) \<and>
         tab_id_of (a_id job) \<notin> ts_closedTabs (reopenTab lp_reopen (tab_id_of (a_id job)) s db) \<and>
         tab_id_of (a_id job) \<notin>
           stored_closed (ts_localStorage (reopenTab lp_reopen (tab_id_of (a_id job)) s db)) pid \<and>
         tab_id_of (a_id job) \<in>
           set (map dt_id (ts_decisionTabs (reopenTab lp_reopen (tab_id_of (a_id job)) s db))) \<and>
         tab_id_of (a_id job) \<in>
           set (map dt_id (ts_decisionTabs
                  (reopenTab lp_reopen_closed (tab_id_of (a_id job)) (closeTab (tab_id_of (a_id job)) s) db))) \<and>
         a_id job \<notin> set (map a_id (snd (permanentlyDeleteTab (tab_id_of (a_id job)) s db))) \<and>
         status_GET (Some uid) (a_id job) (snd (permanentlyDeleteTab (tab_id_of (a_id job)) s db)) =
           Error 404 ''Analysis not found or access denied'' \<and>
         tab_id_of (a_id job) \<notin> ts_closedTabs (fst (permanentlyDeleteTab (tab_id_of (a_id job)) s db)) \<and>
         tab_id_of (a_id job) \<notin>
           stored_closed (ts_localStorage (fst (permanentlyDeleteTab (tab_id_of (a_id job)) s db))) pid"
proof -
  let ?t = "tab_id_of (a_id job)"
  note cf = closeTab_facts[OF assms(2,3), of "a_id job"]
  have c1: "?t \<notin> set (map dt_id (ts_decisionTabs (closeTab ?t s)))"
    by (rule closeTab_removes)
  have cu: "ts_user (closeTab ?t s) = Some uid" using cf(1) assms(1) by simp
  have cc: "?t \<in> stored_closed (ts_localStorage (closeTab ?t s)) pid" unfolding cf(4) by simp
  have c2: "?t \<notin> set (map dt_id (ts_decisionTabs (loadAnalyses lp_reload (closeTab ?t s) db)))"
    by (rule loadAnalyses_closed_out[OF cu cf(2) assms(3) cc])
  have c3: "?t \<in> ts_closedTabs (closeTab ?t s)" unfolding cf(3) by simp
  have c4: "status_GET (Some uid) (a_id job) db = Success (format_status job)"
    using status_GET_own[OF assms(4,5,6)] assms(7) by simp
  have reopen: "?t \<notin> ts_closedTabs (reopenTab lp ?t s' db) \<and>
                ?t \<notin> stored_closed (ts_localStorage (reopenTab lp ?t s' db)) pid \<and>
                ?t \<in> set (map dt_id (ts_decisionTabs (reopenTab lp ?t s' db)))"
    if u: "ts_user s' = Some uid" and p: "ts_activeProjectId s' = Some pid" for s' lp
  proof -
    let ?s2 = "(set_closed pid (ts_closedTabs s' - {?t}) s')\<lparr>ts_activeTabId := ?t\<rparr>"
    have e: "reopenTab lp ?t s' db = loadAnalyses lp ?s2 db" by (rule reopenTab_eq[OF p assms(3)])
    have u2: "ts_user ?s2 = Some uid" and p2: "ts_activeProjectId ?s2 = Some pid"
      using u p by (simp_all add: set_closed_def)
    have n: "?t \<notin> stored_closed (ts_localStorage ?s2) pid"
      by (simp add: set_closed_def stored_closed_def)
    have k: "?t \<notin> ts_closedTabs ?s2" by (simp add: set_closed_def)
    from loadAnalyses_has[OF u2 p2 assms(3) assms(5) assms(7) assms(8) n]
    have "?t \<in> set (map dt_id (ts_decisionTabs (loadAnalyses lp ?s2 db)))" .
    with n k show ?thesis unfolding e loadAnalyses_keeps by (intro conjI)
  qed
  note r1 = reopen[OF assms(1) assms(2), of lp_reopen]
  note r2 = reopen[OF cu cf(2), of lp_reopen_closed]
  have d: "permanentlyDeleteTab ?t s db =
          (set_closed pid (ts_closedTabs s - {?t}) s,
           delete_where (\<lambda>r. a_id r = a_id job \<and> a_user_id r = uid) db)"
    by (rule permanentlyDeleteTab_eq[OF assms(1,2,3,6)])
  have d1: "a_id job \<notin> set (map a_id (snd (permanentlyDeleteTab ?t s db)))"
    unfolding d snd_conv using delete_own[OF assms(4,5)] assms(7) by simp
  have d2: "status_GET (Some uid) (a_id job) (snd (permanentlyDeleteTab ?t s db)) =
           Error 404 ''Analysis not found or access denied''"
    by (rule status_GET_gone[OF d1 assms(6)])
  have d3: "?t \<notin> ts_closedTabs (fst (permanentlyDeleteTab ?t s db))"
    unfolding d fst_conv by (simp add: set_closed_def)
  have d4: "?t \<notin> stored_closed (ts_localStorage (fst (permanentlyDeleteTab ?t s db))) pid"
    unfolding d fst_conv by (simp add: set_closed_def stored_closed_def)
  from c1 c2 c3 c4 r1 r2 d1 d2 d3 d4 show ?thesis by (intro conjI) blast+
qed

theorem tab_close_reopen_delete_witness:
  "ts_user sample_tabs = Some ''u1'' \<and> ts_activeProjectId sample_tabs = Some ''p1'' \<and> ''p1'' \<noteq> [] \<and>
   distinct (map a_id [job_completed, job_waiting]) \<and> job_completed \<in> set [job_completed, job_waiting] \<and>
   a_id job_completed = ''a1'' \<and> a_user_id job_completed = ''u1'' \<and> a_project_id job_completed = ''p1'' \<and>
   tab_id_of ''a1'' \<notin> set (map dt_id (ts_decisionTabs (closeTab (tab_id_of ''a1'') sample_tabs))) \<and>
   status_GET (Some ''u1'') ''a1'' [job_completed, job_waiting] = Success (format_status job_completed) \<and>
   tab_id_of ''a1'' \<in>
     set (map dt_id (ts_decisionTabs
            (reopenTab (Some ''p1'') (tab_id_of ''a1'') (closeTab (tab_id_of ''a1'') sample_tabs)
               [job_completed, job_waiting]))) \<and>
   ''a1'' \<notin> set (map a_id (snd (permanentlyDeleteTab (tab_id_of ''a1'') sample_tabs [job_completed, job_waiting]))) \<and>
   tab_id_of ''a1'' \<notin>
     ts_closedTabs (fst (permanentlyDeleteTab (tab_id_of ''a1'') sample_tabs [job_completed, job_waiting]))"
proof -
  have 1: "ts_user sample_tabs = Some ''u1''" and 2: "ts_activeProjectId sample_tabs = Some ''p1''"
    by (simp_all add: sample_tabs_def)
  have 3: "''p1'' \<noteq> []" by simp
  have 4: "distinct (map a_id [job_completed, job_waiting])"
    by (simp add: job_completed_def job_waiting_def)
  have 5: "job_completed \<in> set [job_completed, job_waiting]" by simp
  have i: "a_id job_completed = ''a1''" by (simp add: job_completed_def)
  have 6: "a_id job_completed \<noteq> []" by (simp add: job_completed_def)
  have 7: "a_user_id job_completed = ''u1''" and 8: "a_project_id job_completed = ''p1''"
    by (simp_all add: job_completed_def)
  note t = tab_close_reopen_delete[where lp_reload = "Some ''p1''" and lp_reopen = "Some ''p1''"
             and lp_reopen_closed = "Some ''p1''", OF 1 2 3 4 5 6 7 8, unfolded i]
  from t 1 2 3 4 5 i 7 8 show ?thesis by (intro conjI) blast+
qed

end
